theory Spec2Isabelle
  imports Main "HOL-Library.Word"
begin

unbundle bit_operations_syntax

section \<open>The relay controller firmware (avr/main.c)\<close>

type_synonym uint8_t = "8 word"
type_synonym uint16_t = "16 word"

subsection \<open>Pin and register bit positions\<close>

text \<open>The bit positions that main.c defines itself.\<close>

definition SCK_BIT :: nat where "SCK_BIT = 5"
definition MISO_BIT :: nat where "MISO_BIT = 4"
definition MOSI_BIT :: nat where "MOSI_BIT = 3"
definition SS_BIT :: nat where "SS_BIT = 2"
definition CD_BIT :: nat where "CD_BIT = 0"
definition ACK_BIT :: nat where "ACK_BIT = 1"
definition IDLE_BIT :: nat where "IDLE_BIT = 4"
definition CLOCK_BIT :: nat where "CLOCK_BIT = 5"

text \<open>
  The bit positions that main.c takes from the toolchain header avr/io.h (ATmega328P):
  the SPI control and status bits and the pin-change interrupt enables.
\<close>

definition SPIF :: nat where "SPIF = 7"
definition SPE :: nat where "SPE = 6"
definition MSTR :: nat where "MSTR = 4"
definition SPR1 :: nat where "SPR1 = 1"
definition SPR0 :: nat where "SPR0 = 0"
definition SPI2X :: nat where "SPI2X = 0"
definition PCIE0 :: nat where "PCIE0 = 0"
definition PCINT0 :: nat where "PCINT0 = 0"

text \<open>The C expression \<open>1 << n\<close> stored into an 8-bit register.\<close>

definition BV :: "nat \<Rightarrow> uint8_t" where
  "BV n = push_bit n 1"

subsection \<open>Machine state\<close>

text \<open>
  The levels of the input pins as the firmware reads them: one sample of PIND and PINC.
  The host side of the bus is a piecewise constant signal: a current sample and the list
  of the samples that follow it in time. A read of PIND or PINC returns the current
  sample; a busy-wait moves forward in time. The pair of the current sample and the
  samples to come is a position in time.
\<close>

record pins =
  PIND :: uint8_t
  PINC :: uint8_t

text \<open>
  A store into one of the four registers behind the two data buses and the busy/idle
  line: the data direction and the output latch of port D and of port C.
\<close>

datatype bus_event =
  Store_DDRD uint8_t
  | Store_PORTD uint8_t
  | Store_DDRC uint8_t
  | Store_PORTC uint8_t

text \<open>
  The I/O registers the firmware writes. The SPI data register is modelled by its two
  sides: \<open>SPDR_rx\<close> is the receive buffer that a read of SPDR returns, \<open>spi_sent\<close> is the
  sequence of bytes that were stored into SPDR (each store shifts one byte out to the card).
  \<open>presented\<close> records, in order, every pair of values that \<open>read_loop\<close> stores into PORTD
  and PORTC while both ports drive the data buses. \<open>bus_trace\<close> records, in order, every
  store into DDRD, PORTD, DDRC and PORTC that the transfer phases make, each with the
  position in time at which it is made.
\<close>

record avr =
  DDRB :: uint8_t
  PORTB :: uint8_t
  DDRC :: uint8_t
  PORTC :: uint8_t
  DDRD :: uint8_t
  PORTD :: uint8_t
  SPCR :: uint8_t
  SPSR :: uint8_t
  PCICR :: uint8_t
  PCMSK0 :: uint8_t
  interrupts_on :: bool
  SPDR_rx :: uint8_t
  spi_sent :: "uint8_t list"
  presented :: "(uint8_t \<times> uint8_t) list"
  bus_trace :: "(bus_event \<times> pins \<times> pins list) list"

text \<open>A store of the transfer phases: the register changes and the trace grows.\<close>

fun bus_store :: "bus_event \<Rightarrow> pins \<Rightarrow> pins list \<Rightarrow> avr \<Rightarrow> avr" where
  "bus_store (Store_DDRD v) cur fut s =
     s\<lparr>DDRD := v, bus_trace := bus_trace s @ [(Store_DDRD v, cur, fut)]\<rparr>"
| "bus_store (Store_PORTD v) cur fut s =
     s\<lparr>PORTD := v, bus_trace := bus_trace s @ [(Store_PORTD v, cur, fut)]\<rparr>"
| "bus_store (Store_DDRC v) cur fut s =
     s\<lparr>DDRC := v, bus_trace := bus_trace s @ [(Store_DDRC v, cur, fut)]\<rparr>"
| "bus_store (Store_PORTC v) cur fut s =
     s\<lparr>PORTC := v, bus_trace := bus_trace s @ [(Store_PORTC v, cur, fut)]\<rparr>"

subsection \<open>The card-detect mirror\<close>

text \<open>
  \<open>ISR(PCINT0_vect)\<close>, run on every change of PB0: the argument is the value that the
  read of PINB returns.
\<close>

definition PCINT0_vect :: "uint8_t \<Rightarrow> avr \<Rightarrow> avr" where
  "PCINT0_vect pinb s =
     (if pinb AND BV CD_BIT \<noteq> 0
      then s\<lparr>PORTB := PORTB s AND NOT (BV ACK_BIT)\<rparr>
      else s\<lparr>PORTB := PORTB s OR BV ACK_BIT\<rparr>)"

text \<open>
  The configuration that \<open>main\<close> performs before it enters \<open>main_loop\<close>, applied to the
  state the controller has when \<open>main\<close> starts.
\<close>

definition main_init :: "avr \<Rightarrow> avr" where
  "main_init s =
     (let s = s\<lparr>DDRB := BV SCK_BIT OR BV MOSI_BIT OR BV SS_BIT OR BV ACK_BIT\<rparr>;
          s = s\<lparr>PORTB := BV SS_BIT OR BV CD_BIT\<rparr>;
          s = s\<lparr>SPCR := BV SPE OR BV MSTR OR BV SPR1 OR BV SPR0\<rparr>;
          s = s\<lparr>SPSR := SPSR s OR BV SPI2X\<rparr>;
          s = s\<lparr>DDRC := 0\<rparr>;
          s = s\<lparr>PORTC := 0\<rparr>;
          s = s\<lparr>DDRD := BV IDLE_BIT\<rparr>;
          s = s\<lparr>PORTD := 0\<rparr>;
          s = s\<lparr>PCICR := PCICR s OR BV PCIE0\<rparr>;
          s = s\<lparr>PCMSK0 := PCMSK0 s OR BV PCINT0\<rparr>;
          s = s\<lparr>interrupts_on := True\<rparr>
      in s)"

text \<open>The register file after reset: every I/O register reads zero.\<close>

definition reset_state :: avr where
  "reset_state =
     \<lparr>DDRB = 0, PORTB = 0, DDRC = 0, PORTC = 0, DDRD = 0, PORTD = 0, SPCR = 0, SPSR = 0,
      PCICR = 0, PCMSK0 = 0, interrupts_on = False, SPDR_rx = 0, spi_sent = [],
      presented = [], bus_trace = []\<rparr>"

subsection \<open>Clocked steps and the SPI port\<close>

text \<open>The truth value of the C expression \<open>v & (1 << CLOCK_BIT)\<close>.\<close>

definition clock_high :: "uint8_t \<Rightarrow> bool" where
  "clock_high v = (v AND BV CLOCK_BIT \<noteq> 0)"

text \<open>
  The busy-wait \<open>if (lvl) while (PIND & clock); else while (!(PIND & clock));\<close>: it polls
  PIND for as long as the clock line is at level \<open>lvl\<close>. When the host never moves the line
  again the loop does not end: the result is \<open>None\<close>.
\<close>

fun wait_clock :: "bool \<Rightarrow> pins \<Rightarrow> pins list \<Rightarrow> (pins \<times> pins list) option" where
  "wait_clock lvl cur [] =
     (if clock_high (PIND cur) = lvl then None else Some (cur, []))"
| "wait_clock lvl cur (p # ps) =
     (if clock_high (PIND cur) = lvl then wait_clock lvl p ps else Some (cur, p # ps))"

text \<open>
  A store to SPDR starts one SPI exchange: the stored byte is shifted out and the byte the
  card answers with is shifted in. \<open>miso n\<close> is the card's answer in exchange number \<open>n\<close>.
  The exchange is complete, with SPIF set, by the time the firmware polls SPSR.
\<close>

definition write_SPDR :: "(nat \<Rightarrow> uint8_t) \<Rightarrow> uint8_t \<Rightarrow> avr \<Rightarrow> avr" where
  "write_SPDR miso v s =
     s\<lparr>SPDR_rx := miso (length (spi_sent s)),
       spi_sent := spi_sent s @ [v],
       SPSR := SPSR s OR BV SPIF\<rparr>"

text \<open>The truth value of \<open>SPSR & (1 << SPIF)\<close>.\<close>

definition spi_done :: "avr \<Rightarrow> bool" where
  "spi_done s = (SPSR s AND BV SPIF \<noteq> 0)"

text \<open>
  A read of SPDR after SPSR was read with SPIF set: it returns the receive buffer and
  clears SPIF.
\<close>

definition read_SPDR :: "avr \<Rightarrow> uint8_t \<times> avr" where
  "read_SPDR s = (SPDR_rx s, s\<lparr>SPSR := SPSR s AND NOT (BV SPIF)\<rparr>)"

subsection \<open>Frame header\<close>

text \<open>
  Where control goes after the header of a frame was read: back to \<open>main_loop\<close>, to
  \<open>do_read\<close> with the decoded \<open>byte_count\<close>, or to \<open>do_write\<close> with the decoded
  \<open>byte_count\<close> and the last value of \<open>pin_d\<close>. The labels \<open>do_read1\<close> and \<open>do_write1\<close>
  are their first assignments followed by \<open>do_read\<close> and \<open>do_write\<close>.
\<close>

datatype label =
  Goto_main_loop
  | Goto_do_read uint16_t
  | Goto_do_write uint16_t uint8_t

text \<open>
  The code from the label \<open>main_loop\<close> up to the first jump. The 8-bit operands are
  promoted to \<open>int\<close> before \<open>&\<close>, \<open><<\<close> and \<open>|\<close>, and the result is stored into the
  16-bit \<open>byte_count\<close>.
\<close>

definition main_loop_head ::
  "avr \<Rightarrow> pins \<Rightarrow> pins list \<Rightarrow> (label \<times> avr \<times> pins \<times> pins list) option" where
  "main_loop_head s cur fut =
     (case wait_clock (clock_high (PIND cur)) cur fut of
        None \<Rightarrow> None
      | Some (c0, f0) \<Rightarrow>
          if PIND c0 AND 0x80 = 0 then
            (if PIND c0 AND 0x40 \<noteq> 0
             then Some (Goto_do_read (ucast (PINC c0)), s, c0, f0)
             else Some (Goto_do_write (ucast (PINC c0)) (PIND c0), s, c0, f0))
          else
            let pin_c = PINC c0; pin_d = PIND c0 in
            if pin_d AND 0x40 = 0 then
              (let byte_count = push_bit 8 (ucast (pin_c AND 0x1F)) :: uint16_t in
               case wait_clock (clock_high pin_d) c0 f0 of
                 None \<Rightarrow> None
               | Some (c1, f1) \<Rightarrow>
                   let pin_d = PIND c1;
                       byte_count = byte_count OR ucast ((pin_d AND 0xC0) OR PINC c1)
                   in if pin_c AND 0x20 \<noteq> 0
                      then Some (Goto_do_read byte_count, s, c1, f1)
                      else Some (Goto_do_write byte_count pin_d, s, c1, f1))
            else if pin_c AND 0x3E = 0 then
              (if pin_c AND 1 \<noteq> 0
               then Some (Goto_main_loop, s\<lparr>SPCR := BV SPE OR BV MSTR\<rparr>, c0, f0)
               else Some (Goto_main_loop,
                          s\<lparr>SPCR := BV SPE OR BV MSTR OR BV SPR1 OR BV SPR0\<rparr>, c0, f0))
            else Some (Goto_main_loop, s, c0, f0))"

subsection \<open>Transfer phases\<close>

text \<open>
  The loop at \<open>read_loop\<close> together with the code that follows it up to the jump back to
  \<open>main_loop\<close>. Waiting for SPIF when no exchange is under way never ends.
\<close>

function read_loop ::
  "(nat \<Rightarrow> uint8_t) \<Rightarrow> uint16_t \<Rightarrow> uint8_t \<Rightarrow> avr \<Rightarrow> pins \<Rightarrow> pins list
     \<Rightarrow> (avr \<times> pins \<times> pins list) option" where
  "read_loop miso byte_count pin_d s cur fut =
     (if \<not> spi_done s then None
      else
        let (next_port_c, s) = read_SPDR s;
            next_port_d = (next_port_c AND 0xC0) OR BV IDLE_BIT
        in case wait_clock (clock_high pin_d) cur fut of
             None \<Rightarrow> None
           | Some (c, f) \<Rightarrow>
               let s = bus_store (Store_PORTD next_port_d) c f s;
                   s = bus_store (Store_PORTC next_port_c) c f s;
                   s = s\<lparr>presented := presented s @ [(next_port_d, next_port_c)]\<rparr>;
                   pin_d = PIND c
               in if byte_count \<noteq> 0
                  then read_loop miso (byte_count - 1) pin_d (write_SPDR miso 0xFF s) c f
                  else
                    (case wait_clock (clock_high pin_d) c f of
                       None \<Rightarrow> None
                     | Some (c', f') \<Rightarrow>
                         let s = bus_store (Store_DDRD (BV IDLE_BIT)) c' f' s;
                             s = bus_store (Store_DDRC 0) c' f' s;
                             s = bus_store (Store_PORTD 0) c' f' s;
                             s = bus_store (Store_PORTC 0) c' f' s
                         in Some (s, c', f')))"
  by pat_completeness auto
termination
  by (relation "measure (\<lambda>(miso, byte_count, pin_d, s, cur, fut). unat byte_count)")
     (auto simp: measure_unat)

declare read_loop.simps [simp del]

text \<open>The code from the label \<open>do_read\<close> up to \<open>read_loop\<close>, followed by the loop.\<close>

definition do_read ::
  "(nat \<Rightarrow> uint8_t) \<Rightarrow> uint16_t \<Rightarrow> avr \<Rightarrow> pins \<Rightarrow> pins list
     \<Rightarrow> (avr \<times> pins \<times> pins list) option" where
  "do_read miso byte_count s cur fut =
     (let s = write_SPDR miso 0xFF s;
          pin_d = PIND cur;
          s = bus_store (Store_PORTD ((pin_d AND 0xC0) OR BV IDLE_BIT)) cur fut s;
          s = bus_store (Store_DDRD (0xC0 OR BV IDLE_BIT)) cur fut s;
          s = bus_store (Store_PORTC (ucast (byte_count AND 0x3F))) cur fut s;
          s = bus_store (Store_DDRC 0x3F) cur fut s
      in read_loop miso byte_count pin_d s cur fut)"

text \<open>
  The loop at \<open>write_loop\<close> up to the jump back to \<open>main_loop\<close>. The read of SPDR after
  the exchange discards the card's answer.
\<close>

function write_loop ::
  "(nat \<Rightarrow> uint8_t) \<Rightarrow> uint16_t \<Rightarrow> uint8_t \<Rightarrow> avr \<Rightarrow> pins \<Rightarrow> pins list
     \<Rightarrow> (avr \<times> pins \<times> pins list) option" where
  "write_loop miso byte_count pin_d s cur fut =
     (case wait_clock (clock_high pin_d) cur fut of
        None \<Rightarrow> None
      | Some (c, f) \<Rightarrow>
          let pin_d = PIND c;
              s = write_SPDR miso ((pin_d AND 0xC0) OR PINC c) s
          in if \<not> spi_done s then None
             else
               let s = snd (read_SPDR s)
               in if byte_count \<noteq> 0
                  then write_loop miso (byte_count - 1) pin_d s c f
                  else Some (bus_store (Store_PORTD 0) c f s, c, f))"
  by pat_completeness auto
termination
  by (relation "measure (\<lambda>(miso, byte_count, pin_d, s, cur, fut). unat byte_count)")
     (auto simp: measure_unat)

declare write_loop.simps [simp del]

definition do_write ::
  "(nat \<Rightarrow> uint8_t) \<Rightarrow> uint16_t \<Rightarrow> uint8_t \<Rightarrow> avr \<Rightarrow> pins \<Rightarrow> pins list
     \<Rightarrow> (avr \<times> pins \<times> pins list) option" where
  "do_write miso byte_count pin_d s cur fut =
     write_loop miso byte_count pin_d (bus_store (Store_PORTD (BV IDLE_BIT)) cur fut s) cur fut"

text \<open>One pass from the label \<open>main_loop\<close> to the next jump back to it.\<close>

definition main_loop ::
  "(nat \<Rightarrow> uint8_t) \<Rightarrow> avr \<Rightarrow> pins \<Rightarrow> pins list \<Rightarrow> (avr \<times> pins \<times> pins list) option" where
  "main_loop miso s cur fut =
     (case main_loop_head s cur fut of
        None \<Rightarrow> None
      | Some (Goto_main_loop, s, c, f) \<Rightarrow> Some (s, c, f)
      | Some (Goto_do_read byte_count, s, c, f) \<Rightarrow> do_read miso byte_count s c f
      | Some (Goto_do_write byte_count pin_d, s, c, f) \<Rightarrow> do_write miso byte_count pin_d s c f)"

subsection \<open>Header bytes and frames\<close>

text \<open>
  The byte that one sample of the two data buses carries, by the pin table at the top of
  main.c: D0 to D5 are PC0 to PC5, D6 and D7 are PD6 and PD7.
\<close>

definition bus_byte :: "pins \<Rightarrow> uint8_t" where
  "bus_byte p = (PIND p AND 0xC0) OR (PINC p AND 0x3F)"

datatype direction = Read | Write

datatype frame =
  Short_header direction uint16_t
  | Long_header direction uint16_t
  | Clock_rate bool
  | Unrecognized

text \<open>
  The frame decoding as the specification words it (section 4.1, steps 1 to 3), as a
  function of the two header bytes. \<open>Clock_rate True\<close> is the command with bit 0 set.
\<close>

definition spec_decode :: "uint8_t \<Rightarrow> uint8_t \<Rightarrow> frame" where
  "spec_decode byte0 byte1 =
     (if \<not> bit byte0 7 then
        Short_header (if bit byte0 6 then Read else Write) (ucast (byte0 AND 0x3F))
      else if \<not> bit byte1 6 then
        Long_header (if bit byte0 5 then Read else Write)
          (push_bit 8 (ucast (byte0 AND 0x1F)) OR ucast (byte1 AND 0xC0) OR ucast (byte1 AND 0x3F))
      else if byte0 AND 0x3E = 0 then Clock_rate (bit byte0 0)
      else Unrecognized)"

text \<open>
  The same decoding with the one change that the firmware makes: the long header is
  recognised by bit 6 of the first byte, not of the second.
\<close>

definition frame_decode :: "uint8_t \<Rightarrow> uint8_t \<Rightarrow> frame" where
  "frame_decode byte0 byte1 =
     (if \<not> bit byte0 7 then
        Short_header (if bit byte0 6 then Read else Write) (ucast (byte0 AND 0x3F))
      else if \<not> bit byte0 6 then
        Long_header (if bit byte0 5 then Read else Write)
          (push_bit 8 (ucast (byte0 AND 0x1F)) OR ucast (byte1 AND 0xC0) OR ucast (byte1 AND 0x3F))
      else if byte0 AND 0x3E = 0 then Clock_rate (bit byte0 0)
      else Unrecognized)"

text \<open>
  What acting on a decoded frame means for the controller: \<open>e0\<close> is the bus after the
  clocked step that delivered the first header byte, \<open>e1\<close> the bus after the next clocked
  step. A short header and a clock-rate command leave the bus at \<open>e0\<close>; a long header
  has taken the second step. A clock-rate command stores the SPI control register
  (no divider bits for the fast rate, SPR1 and SPR0 for the slow one); nothing else
  changes the registers.
\<close>

fun frame_outcome ::
  "frame \<Rightarrow> avr \<Rightarrow> pins \<times> pins list \<Rightarrow> pins \<times> pins list
     \<Rightarrow> label \<times> avr \<times> pins \<times> pins list" where
  "frame_outcome (Short_header Read n) s e0 e1 = (Goto_do_read n, s, e0)"
| "frame_outcome (Short_header Write n) s e0 e1 = (Goto_do_write n (PIND (fst e0)), s, e0)"
| "frame_outcome (Long_header Read n) s e0 e1 = (Goto_do_read n, s, e1)"
| "frame_outcome (Long_header Write n) s e0 e1 = (Goto_do_write n (PIND (fst e1)), s, e1)"
| "frame_outcome (Clock_rate fast) s e0 e1 =
     (Goto_main_loop,
      s\<lparr>SPCR := (if fast then BV SPE OR BV MSTR
                  else BV SPE OR BV MSTR OR BV SPR1 OR BV SPR0)\<rparr>, e0)"
| "frame_outcome Unrecognized s e0 e1 = (Goto_main_loop, s, e0)"

text \<open>
  How \<open>read_loop\<close> puts a byte on the two data buses: the byte itself into PORTC (the
  port drives its low six bits), its two high bits together with the busy/idle bit into
  PORTD. The pair is (PORTD, PORTC).
\<close>

definition on_bus :: "uint8_t \<Rightarrow> uint8_t \<times> uint8_t" where
  "on_bus b = ((b AND 0xC0) OR BV IDLE_BIT, b)"

text \<open>
  The number of clocked steps the host still offers: the level changes of the clock line
  in the samples to come, seen from level \<open>lvl\<close>.
\<close>

fun edges :: "bool \<Rightarrow> pins list \<Rightarrow> nat" where
  "edges lvl [] = 0"
| "edges lvl (p # ps) =
     (if clock_high (PIND p) = lvl then edges lvl ps
      else Suc (edges (clock_high (PIND p)) ps))"

text \<open>
  The positions in time after one, two, ... clocked steps from position \<open>p\<close>: each is
  where the busy-wait ends that starts at the position before it with the clock level
  found there.
\<close>

fun clocked_steps :: "pins \<times> pins list \<Rightarrow> (pins \<times> pins list) list \<Rightarrow> bool" where
  "clocked_steps p [] = True"
| "clocked_steps p (q # qs) =
     (wait_clock (clock_high (PIND (fst p))) (fst p) (snd p) = Some q \<and> clocked_steps q qs)"

text \<open>
  The stores that put the read transfer on the buses, at position \<open>p\<close>: the two high data
  pins and the busy/idle pin of port D and the six data pins of port C become outputs;
  until the first byte of the card they show the two high bits the host left there and the
  low six bits of the count.
\<close>

definition drive_events ::
  "uint8_t \<Rightarrow> uint16_t \<Rightarrow> pins \<times> pins list \<Rightarrow> (bus_event \<times> pins \<times> pins list) list" where
  "drive_events pin_d byte_count p =
     [(Store_PORTD ((pin_d AND 0xC0) OR BV IDLE_BIT), p),
      (Store_DDRD (0xC0 OR BV IDLE_BIT), p),
      (Store_PORTC (ucast (byte_count AND 0x3F)), p),
      (Store_DDRC 0x3F, p)]"

text \<open>The two stores that present the byte \<open>b\<close> at position \<open>p\<close>, as \<open>on_bus\<close> splits it.\<close>

definition present_events ::
  "uint8_t \<Rightarrow> pins \<times> pins list \<Rightarrow> (bus_event \<times> pins \<times> pins list) list" where
  "present_events b p = [(Store_PORTD (fst (on_bus b)), p), (Store_PORTC (snd (on_bus b)), p)]"

text \<open>
  The stores that release the buses at position \<open>p\<close>: the data pins become inputs again,
  without pull-up, and the busy/idle pin stays an output at the low level.
\<close>

definition release_events :: "pins \<times> pins list \<Rightarrow> (bus_event \<times> pins \<times> pins list) list" where
  "release_events p =
     [(Store_DDRD (BV IDLE_BIT), p), (Store_DDRC 0, p), (Store_PORTD 0, p), (Store_PORTC 0, p)]"

subsection \<open>The controller and the detect line over time\<close>

text \<open>
  The pin-change interrupt of the detect pin is delivered when the three enables that
  \<open>main\<close> sets are set: PCIE0 in PCICR, PCINT0 in PCMSK0 and the global interrupt flag.
\<close>

definition mirror_enabled :: "avr \<Rightarrow> bool" where
  "mirror_enabled s =
     (PCICR s AND BV PCIE0 \<noteq> 0 \<and> PCMSK0 s AND BV PCINT0 \<noteq> 0 \<and> interrupts_on s)"

text \<open>
  The registers the detect mirror depends on: direction and latch of port B and the
  three interrupt enables.
\<close>

definition mirror_regs :: "avr \<Rightarrow> uint8_t \<times> uint8_t \<times> uint8_t \<times> uint8_t \<times> bool" where
  "mirror_regs s = (DDRB s, PORTB s, PCICR s, PCMSK0 s, interrupts_on s)"

text \<open>
  A change of the detect pin: when the interrupt is enabled the handler runs, and
  \<open>pinb\<close> is what its read of PINB returns (bit CD is the level the pin has changed to);
  when it is not enabled nothing happens.
\<close>

definition pin_change :: "uint8_t \<Rightarrow> avr \<Rightarrow> avr" where
  "pin_change pinb s = (if mirror_enabled s then PCINT0_vect pinb s else s)"

text \<open>
  What happens to the controller after \<open>main\<close> has configured it: the detect pin changes,
  or the program runs one of its phases to the end, on any input: the frame header, a
  read transfer, a write transfer. The handler may run between any two of them.
\<close>

datatype event =
  Detect_change uint8_t
  | Frame_header pins "pins list"
  | Read_transfer "nat \<Rightarrow> uint8_t" uint16_t pins "pins list"
  | Write_transfer "nat \<Rightarrow> uint8_t" uint16_t uint8_t pins "pins list"

fun step :: "event \<Rightarrow> avr \<Rightarrow> avr option" where
  "step (Detect_change pinb) s = Some (pin_change pinb s)"
| "step (Frame_header cur fut) s = map_option (\<lambda>r. fst (snd r)) (main_loop_head s cur fut)"
| "step (Read_transfer miso byte_count cur fut) s =
     map_option fst (do_read miso byte_count s cur fut)"
| "step (Write_transfer miso byte_count pin_d cur fut) s =
     map_option fst (do_write miso byte_count pin_d s cur fut)"

text \<open>The events in order; \<open>None\<close> when a phase of the program never ends.\<close>

fun run :: "event list \<Rightarrow> avr \<Rightarrow> avr option" where
  "run [] s = Some s"
| "run (e # es) s = (case step e s of None \<Rightarrow> None | Some s' \<Rightarrow> run es s')"

text \<open>What the handler read at the latest change of the detect pin, if there was one.\<close>

fun latest_detect :: "event list \<Rightarrow> uint8_t option" where
  "latest_detect [] = None"
| "latest_detect (e # es) =
     (case latest_detect es of
        Some pinb \<Rightarrow> Some pinb
      | None \<Rightarrow> (case e of Detect_change pinb \<Rightarrow> Some pinb | _ \<Rightarrow> None))"

section \<open>The host device driver (amiga/source/device.c)\<close>

type_synonym ULONG = "32 word"
type_synonym UWORD = "16 word"
type_synonym UBYTE = "8 word"

text \<open>A pointer of the 68000: a 32-bit address, the null pointer is address 0.\<close>

type_synonym APTR = "32 word"

definition NULL :: APTR where
  "NULL = 0"

subsection \<open>Constants of the operating system headers\<close>

text \<open>
  device.c takes these from the AmigaOS headers exec/errors.h, exec/io.h, exec/devices.h,
  exec/memory.h and devices/trackdisk.h; the values are the ones those headers give.
\<close>

definition IOERR_OPENFAIL :: int where "IOERR_OPENFAIL = - 1"
definition IOERR_ABORTED :: int where "IOERR_ABORTED = - 2"
definition IOERR_NOCMD :: int where "IOERR_NOCMD = - 3"
definition TDERR_NotSpecified :: int where "TDERR_NotSpecified = 20"
definition TDERR_DiskChanged :: int where "TDERR_DiskChanged = 29"
definition IOF_QUICK :: UBYTE where "IOF_QUICK = 1"
definition UNITF_ACTIVE :: UBYTE where "UNITF_ACTIVE = 1"
definition MEMF_PUBLIC :: ULONG where "MEMF_PUBLIC = 1"
definition DG_DIRECT_ACCESS :: UBYTE where "DG_DIRECT_ACCESS = 0"
definition DGF_REMOVABLE :: UBYTE where "DGF_REMOVABLE = 1"

text \<open>
  The command codes that the \<open>switch\<close> of \<open>__BeginIO\<close> names, and one value for every
  other code (its \<open>default\<close> branch).
\<close>

datatype command =
  CMD_RESET | CMD_CLEAR | CMD_UPDATE | TD_MOTOR | TD_PROTSTATUS | TD_ADDCHANGEINT
  | TD_CHANGENUM | TD_CHANGESTATE | TD_REMOVE | TD_REMCHANGEINT | TD_GETDRIVETYPE
  | TD_GETGEOMETRY | TD_FORMAT | CMD_WRITE | CMD_READ | CMD_unlisted

subsection \<open>Requests and driver state\<close>

text \<open>\<open>struct IOStdReq\<close>: the fields the driver reads or writes. \<open>io_Error\<close> is a signed byte.\<close>

record IOStdReq =
  io_Unit :: APTR
  io_Command :: command
  io_Flags :: UBYTE
  io_Error :: int
  io_Actual :: ULONG
  io_Length :: ULONG
  io_Data :: APTR
  io_Offset :: ULONG

record DriveGeometry =
  dg_SectorSize :: ULONG
  dg_TotalSectors :: ULONG
  dg_Cylinders :: ULONG
  dg_CylSectors :: ULONG
  dg_Heads :: ULONG
  dg_TrackSectors :: ULONG
  dg_BufMemType :: ULONG
  dg_DeviceType :: UBYTE
  dg_Flags :: UBYTE
  dg_Reserved :: UWORD

text \<open>
  Modelled from the spec: the card interface (sd.h, sd.c) is not among the sources. The
  specification describes it as an external collaborator providing
  \<open>read(block, count) -> status\<close>, \<open>write(block, count) -> status\<close> and
  \<open>get_card_info() -> geometry\<close>, with a card that is reported present or not. Of the card
  types only \<open>sdCardType_None\<close> is named by device.c; every other type is a present card.
  The card information has the three fields that \<open>device_get_geometry\<close> reads; their C types
  are not known, so they are unbounded here and truncated where they are stored.
\<close>

datatype sd_card_type = sdCardType_None | sdCardType_present nat

record sd_card_info_t =
  ci_type :: sd_card_type
  block_size :: nat
  capacity :: nat

text \<open>
  Modelled from the spec: what the calls into the card interface return. The results of
  \<open>sd_read\<close> and \<open>sd_write\<close> may depend on their three arguments (buffer, first sector,
  sector count); 0 is success.
\<close>

record sd_iface =
  sd_open :: int
  sd_read :: "APTR \<Rightarrow> ULONG \<Rightarrow> ULONG \<Rightarrow> int"
  sd_write :: "APTR \<Rightarrow> ULONG \<Rightarrow> ULONG \<Rightarrow> int"
  sd_get_card_info :: sd_card_info_t

text \<open>
  Modelled from the spec: the sector shift of sd.h is not among the sources; the
  specification's sector size is 512 bytes.
\<close>

definition SD_SECTOR_SHIFT :: nat where
  "SD_SECTOR_SHIFT = 9"

text \<open>The calls the driver makes into the card interface, in order.\<close>

datatype sd_call =
  Call_sd_open
  | Call_sd_read APTR ULONG ULONG
  | Call_sd_write APTR ULONG ULONG
  | Call_sd_get_card_info

text \<open>
  \<open>device_ctx_t\<close>, with the address of the allocation: \<open>ctx_addr\<close> is the value of the
  pointer \<open>ctx\<close>. Of \<open>struct Unit\<close> the two fields that the driver writes.
\<close>

record device_ctx_t =
  ctx_addr :: APTR
  device :: APTR
  unit_flags :: UBYTE
  unit_OpenCnt :: UWORD

text \<open>
  The address \<open>&ctx->unit\<close>: the unit follows the 4-byte \<open>device\<close> pointer in
  \<open>device_ctx_t\<close>.
\<close>

definition unit_address :: "device_ctx_t \<Rightarrow> APTR" where
  "unit_address c = ctx_addr c + 4"

text \<open>
  The global variables of device.c (\<open>ctx\<close> is \<open>None\<close> when the pointer is null), the
  memory that holds \<open>DriveGeometry\<close> structures by address, and the calls made to the
  outside: \<open>Cause\<close>, \<open>ReplyMsg\<close> and the card interface.
\<close>

record driver =
  ctx :: "device_ctx_t option"
  sw_int :: APTR
  disk_state :: ULONG
  geometry_at :: "APTR \<Rightarrow> DriveGeometry"
  caused :: "APTR list"
  replied :: "IOStdReq list"
  sd_calls :: "sd_call list"

subsection \<open>Disk change interrupt\<close>

definition hw_isr :: "driver \<Rightarrow> driver" where
  "hw_isr d =
     (if sw_int d \<noteq> NULL then
        let d = d\<lparr>caused := caused d @ [sw_int d]\<rparr>;
            d = d\<lparr>disk_state := (if disk_state d = 0 then 1 else 0)\<rparr>
        in d
      else d)"

subsection \<open>Geometry\<close>

text \<open>
  \<open>1 << block_size\<close> and \<open>capacity >> block_size\<close> are stored into 32-bit fields. Both
  branches call \<open>sd_get_card_info\<close> first.
\<close>

definition device_get_geometry :: "sd_iface \<Rightarrow> driver \<Rightarrow> IOStdReq \<Rightarrow> int \<times> driver" where
  "device_get_geometry sd d iostd =
     (let geom = io_Data iostd;
          d = d\<lparr>sd_calls := sd_calls d @ [Call_sd_get_card_info]\<rparr>;
          ci = sd_get_card_info sd
      in if ci_type ci \<noteq> sdCardType_None then
           let g = geometry_at d geom;
               g = g\<lparr>dg_SectorSize := push_bit (block_size ci) 1\<rparr>;
               g = g\<lparr>dg_TotalSectors := of_nat (drop_bit (block_size ci) (capacity ci))\<rparr>;
               g = g\<lparr>dg_Cylinders := dg_TotalSectors g\<rparr>;
               g = g\<lparr>dg_CylSectors := 1\<rparr>;
               g = g\<lparr>dg_Heads := 1\<rparr>;
               g = g\<lparr>dg_TrackSectors := 1\<rparr>;
               g = g\<lparr>dg_BufMemType := MEMF_PUBLIC\<rparr>;
               g = g\<lparr>dg_DeviceType := DG_DIRECT_ACCESS\<rparr>;
               g = g\<lparr>dg_Flags := DGF_REMOVABLE\<rparr>
           in (0, d\<lparr>geometry_at := (geometry_at d)(geom := g)\<rparr>)
         else (TDERR_DiskChanged, d))"

subsection \<open>Opening the device\<close>

text \<open>
  \<open>__UserDevOpen\<close>. The request pointer is \<open>None\<close> when it is null. The function stores
  \<open>io_Error\<close> through the request pointer on every path and writes the unit through \<open>ctx\<close>
  on the successful one: with a null pointer there the behaviour is undefined, and the
  result is \<open>None\<close>. Otherwise the result is the returned error code, the driver state and
  the request.
\<close>

definition UserDevOpen ::
  "sd_iface \<Rightarrow> driver \<Rightarrow> IOStdReq option \<Rightarrow> ULONG \<Rightarrow> ULONG
     \<Rightarrow> (int \<times> driver \<times> IOStdReq) option" where
  "UserDevOpen sd d ioreq unit flags =
     (case ioreq of
        None \<Rightarrow> None
      | Some iostd \<Rightarrow>
          if unit = 0 then
            (let d = d\<lparr>sd_calls := sd_calls d @ [Call_sd_open]\<rparr>
             in if sd_open sd = 0 then
                  (case ctx d of
                     None \<Rightarrow> None
                   | Some c \<Rightarrow>
                       let iostd = iostd\<lparr>io_Unit := unit_address c\<rparr>;
                           c = c\<lparr>unit_flags := UNITF_ACTIVE\<rparr>;
                           c = c\<lparr>unit_OpenCnt := 1\<rparr>
                       in Some (0, d\<lparr>ctx := Some c\<rparr>, iostd\<lparr>io_Error := 0\<rparr>))
                else Some (IOERR_OPENFAIL, d, iostd\<lparr>io_Error := IOERR_OPENFAIL\<rparr>))
          else Some (IOERR_OPENFAIL, d, iostd\<lparr>io_Error := IOERR_OPENFAIL\<rparr>))"

subsection \<open>Request dispatch\<close>

text \<open>The body of one \<open>case\<close> of the \<open>switch\<close> in \<open>__BeginIO\<close>.\<close>

fun dispatch :: "sd_iface \<Rightarrow> command \<Rightarrow> driver \<Rightarrow> IOStdReq \<Rightarrow> driver \<times> IOStdReq" where
  "dispatch sd CMD_RESET d iostd = (d, iostd)"
| "dispatch sd CMD_CLEAR d iostd = (d, iostd)"
| "dispatch sd CMD_UPDATE d iostd = (d, iostd)"
| "dispatch sd TD_MOTOR d iostd = (d, iostd)"
| "dispatch sd TD_PROTSTATUS d iostd = (d, iostd\<lparr>io_Actual := 0\<rparr>)"
| "dispatch sd TD_ADDCHANGEINT d iostd =
     (if io_Data iostd \<noteq> NULL then (d\<lparr>sw_int := io_Data iostd\<rparr>, iostd)
      else (d\<lparr>sw_int := NULL\<rparr>, iostd))"
| "dispatch sd TD_CHANGENUM d iostd = (d, iostd)"
| "dispatch sd TD_CHANGESTATE d iostd = (d, iostd\<lparr>io_Actual := disk_state d\<rparr>)"
| "dispatch sd TD_REMOVE d iostd = (d, iostd\<lparr>io_Actual := 0\<rparr>)"
| "dispatch sd TD_REMCHANGEINT d iostd = (d, iostd)"
| "dispatch sd TD_GETDRIVETYPE d iostd = (d, iostd\<lparr>io_Actual := ucast DG_DIRECT_ACCESS\<rparr>)"
| "dispatch sd TD_GETGEOMETRY d iostd =
     (let iostd = iostd\<lparr>io_Actual := 0\<rparr>;
          (err, d) = device_get_geometry sd d iostd
      in (d, iostd\<lparr>io_Error := err\<rparr>))"
| "dispatch sd TD_FORMAT d iostd = (d, iostd)"
| "dispatch sd CMD_WRITE d iostd =
     (let buf = io_Data iostd;
          sector = drop_bit SD_SECTOR_SHIFT (io_Offset iostd);
          n = drop_bit SD_SECTOR_SHIFT (io_Length iostd);
          d = d\<lparr>sd_calls := sd_calls d @ [Call_sd_write buf sector n]\<rparr>
      in if sd_write sd buf sector n = 0
         then (d, iostd\<lparr>io_Actual := io_Length iostd, io_Error := 0\<rparr>)
         else (d, iostd\<lparr>io_Actual := 0, io_Error := TDERR_NotSpecified\<rparr>))"
| "dispatch sd CMD_READ d iostd =
     (let buf = io_Data iostd;
          sector = drop_bit SD_SECTOR_SHIFT (io_Offset iostd);
          n = drop_bit SD_SECTOR_SHIFT (io_Length iostd);
          d = d\<lparr>sd_calls := sd_calls d @ [Call_sd_read buf sector n]\<rparr>
      in if sd_read sd buf sector n = 0
         then (d, iostd\<lparr>io_Actual := io_Length iostd, io_Error := 0\<rparr>)
         else (d, iostd\<lparr>io_Actual := 0, io_Error := TDERR_NotSpecified\<rparr>))"
| "dispatch sd CMD_unlisted d iostd = (d, iostd\<lparr>io_Error := IOERR_NOCMD\<rparr>)"

text \<open>
  \<open>__BeginIO\<close>. With \<open>ctx\<close> or the request pointer null it returns at once and nothing
  changes. Otherwise it clears \<open>io_Error\<close>, runs the command, and replies to the message
  unless the request has \<open>IOF_QUICK\<close> set.
\<close>

definition BeginIO :: "sd_iface \<Rightarrow> driver \<Rightarrow> IOStdReq option \<Rightarrow> driver \<times> IOStdReq option" where
  "BeginIO sd d ioreq =
     (case ioreq of
        None \<Rightarrow> (d, None)
      | Some iostd \<Rightarrow>
          if ctx d = None then (d, Some iostd)
          else
            let iostd = iostd\<lparr>io_Error := 0\<rparr>;
                (d, iostd) = dispatch sd (io_Command iostd) d iostd
            in if io_Flags iostd AND IOF_QUICK = 0
               then (d\<lparr>replied := replied d @ [iostd]\<rparr>, Some iostd)
               else (d, Some iostd))"

text \<open>
  The global variables as the program image initialises them: \<open>ctx\<close> and \<open>sw_int\<close> are
  null, \<open>disk_state\<close> is 0 (disk present); nothing has been called yet. The memory for
  geometry structures is taken as zero-filled.
\<close>

definition initial_driver :: driver where
  "initial_driver =
     \<lparr>ctx = None, sw_int = NULL, disk_state = 0,
      geometry_at = (\<lambda>a. \<lparr>dg_SectorSize = 0, dg_TotalSectors = 0, dg_Cylinders = 0,
                          dg_CylSectors = 0, dg_Heads = 0, dg_TrackSectors = 0,
                          dg_BufMemType = 0, dg_DeviceType = 0, dg_Flags = 0,
                          dg_Reserved = 0\<rparr>),
      caused = [], replied = [], sd_calls = []\<rparr>"

section \<open>Properties of the relay controller\<close>

lemmas bits_defs =
  BV_def SCK_BIT_def MISO_BIT_def MOSI_BIT_def SS_BIT_def CD_BIT_def ACK_BIT_def
  IDLE_BIT_def CLOCK_BIT_def SPIF_def SPE_def MSTR_def SPR1_def SPR0_def SPI2X_def
  PCIE0_def PCINT0_def

subsection \<open>Clocked steps\<close>

text \<open>While the host still offers a clocked step, the busy-wait ends and takes exactly one.\<close>

lemma wait_clock_edge:
  "0 < edges (clock_high (PIND cur)) fut \<Longrightarrow>
   \<exists>c f. wait_clock (clock_high (PIND cur)) cur fut = Some (c, f) \<and>
         Suc (edges (clock_high (PIND c)) f) = edges (clock_high (PIND cur)) fut"
proof (induction fut arbitrary: cur)
  case Nil
  then show ?case by simp
next
  case (Cons p ps)
  show ?case
  proof (cases "clock_high (PIND p) = clock_high (PIND cur)")
    case True
    with Cons.prems have "0 < edges (clock_high (PIND p)) ps" by simp
    from Cons.IH [OF this] True show ?thesis
      by (cases ps) auto
  next
    case False
    then show ?thesis by (cases ps) auto
  qed
qed

lemma spi_done_write [simp]: "spi_done (write_SPDR miso v s)"
  by (simp add: spi_done_def write_SPDR_def bits_defs)

lemma spi_sent_write [simp]: "spi_sent (write_SPDR miso v s) = spi_sent s @ [v]"
  by (simp add: write_SPDR_def)

lemma SPDR_rx_write [simp]: "SPDR_rx (write_SPDR miso v s) = miso (length (spi_sent s))"
  by (simp add: write_SPDR_def)

lemma presented_write [simp]: "presented (write_SPDR miso v s) = presented s"
  by (simp add: write_SPDR_def)

lemma bus_trace_write [simp]: "bus_trace (write_SPDR miso v s) = bus_trace s"
  by (simp add: write_SPDR_def)

lemma PORTB_write [simp]: "PORTB (write_SPDR miso v s) = PORTB s"
  by (simp add: write_SPDR_def)

lemma SPCR_write [simp]: "SPCR (write_SPDR miso v s) = SPCR s"
  by (simp add: write_SPDR_def)

subsection \<open>The read transfer\<close>

text \<open>
  The loop, entered with an exchange under way and \<open>pin_d\<close> at the current clock level:
  with \<open>n\<close> in \<open>byte_count\<close> and \<open>n + 2\<close> clocked steps to come it takes exactly \<open>n + 2\<close>
  clocked steps; after each of the first \<open>n + 1\<close> it presents one byte, the byte of the
  exchange under way first, and after the last it releases the buses.
\<close>

lemma read_loop_run:
  "spi_done s \<Longrightarrow> unat byte_count = n \<Longrightarrow> clock_high pin_d = clock_high (PIND cur) \<Longrightarrow>
   n + 2 \<le> edges (clock_high (PIND cur)) fut \<Longrightarrow>
   \<exists>s' ps. length ps = n + 2 \<and> clocked_steps (cur, fut) ps \<and>
     read_loop miso byte_count pin_d s cur fut = Some (s', last ps) \<and>
     bus_trace s' = bus_trace s @
        concat (map2 present_events
           (SPDR_rx s # map miso [length (spi_sent s) ..< length (spi_sent s) + n])
           (butlast ps)) @
        release_events (last ps) \<and>
     presented s' = presented s @ map on_bus
        (SPDR_rx s # map miso [length (spi_sent s) ..< length (spi_sent s) + n]) \<and>
     spi_sent s' = spi_sent s @ replicate n 0xFF \<and>
     DDRD s' = BV IDLE_BIT \<and> DDRC s' = 0 \<and> PORTD s' = 0 \<and> PORTC s' = 0 \<and>
     PORTB s' = PORTB s \<and> SPCR s' = SPCR s \<and>
     edges (clock_high (PIND (fst (last ps)))) (snd (last ps)) + (n + 2) =
       edges (clock_high (PIND cur)) fut"
proof (induction n arbitrary: byte_count pin_d s cur fut)
  case 0
  then have bc: "byte_count = 0" by (simp add: unat_eq_0)
  from 0 have "0 < edges (clock_high (PIND cur)) fut" by simp
  from wait_clock_edge [OF this] obtain c f where
    w1: "wait_clock (clock_high (PIND cur)) cur fut = Some (c, f)" and
    e1: "Suc (edges (clock_high (PIND c)) f) = edges (clock_high (PIND cur)) fut" by blast
  with 0 have "0 < edges (clock_high (PIND c)) f" by simp
  from wait_clock_edge [OF this] obtain c' f' where
    w2: "wait_clock (clock_high (PIND c)) c f = Some (c', f')" and
    e2: "Suc (edges (clock_high (PIND c')) f') = edges (clock_high (PIND c)) f" by blast
  define sf where "sf =
      bus_store (Store_PORTC 0) c' f' (bus_store (Store_PORTD 0) c' f'
        (bus_store (Store_DDRC 0) c' f' (bus_store (Store_DDRD (BV IDLE_BIT)) c' f'
        ((bus_store (Store_PORTC (SPDR_rx s)) c f
           (bus_store (Store_PORTD ((SPDR_rx s AND 0xC0) OR BV IDLE_BIT)) c f
              (s\<lparr>SPSR := SPSR s AND NOT (BV SPIF)\<rparr>)))
          \<lparr>presented := presented s @ [((SPDR_rx s AND 0xC0) OR BV IDLE_BIT, SPDR_rx s)]\<rparr>))))"
  from 0 w1 w2 bc have r: "read_loop miso byte_count pin_d s cur fut = Some (sf, c', f')"
    by (simp add: read_loop.simps [of miso 0] read_SPDR_def Let_def sf_def)
  show ?case
    apply (rule exI [of _ sf])
    apply (rule exI [of _ "[(c, f), (c', f')]"])
    using w1 w2 r e1 e2
    apply (simp add: sf_def present_events_def release_events_def on_bus_def)
    done
next
  case (Suc n)
  then have bc: "byte_count \<noteq> 0" by auto
  with Suc.prems have n: "unat (byte_count - 1) = n"
    by (simp add: unat_minus_one)
  from Suc.prems have "0 < edges (clock_high (PIND cur)) fut" by simp
  from wait_clock_edge [OF this] obtain c f where
    w1: "wait_clock (clock_high (PIND cur)) cur fut = Some (c, f)" and
    e1: "Suc (edges (clock_high (PIND c)) f) = edges (clock_high (PIND cur)) fut" by blast
  define s1 where "s1 = write_SPDR miso 0xFF
     ((bus_store (Store_PORTC (SPDR_rx s)) c f
         (bus_store (Store_PORTD ((SPDR_rx s AND 0xC0) OR BV IDLE_BIT)) c f
            (s\<lparr>SPSR := SPSR s AND NOT (BV SPIF)\<rparr>)))
      \<lparr>presented := presented s @ [((SPDR_rx s AND 0xC0) OR BV IDLE_BIT, SPDR_rx s)]\<rparr>)"
  have d1: "spi_done s1" by (simp add: s1_def)
  from Suc.prems e1 have e: "n + 2 \<le> edges (clock_high (PIND c)) f" by simp
  from Suc.IH [OF d1 n refl e] obtain s' ps where
    len: "length ps = n + 2" and cs: "clocked_steps (c, f) ps" and
    r: "read_loop miso (byte_count - 1) (PIND c) s1 c f = Some (s', last ps)" and
    t: "bus_trace s' = bus_trace s1 @
        concat (map2 present_events
           (SPDR_rx s1 # map miso [length (spi_sent s1) ..< length (spi_sent s1) + n])
           (butlast ps)) @
        release_events (last ps)" and
    p: "presented s' = presented s1 @ map on_bus
        (SPDR_rx s1 # map miso [length (spi_sent s1) ..< length (spi_sent s1) + n])" and
    rest: "spi_sent s' = spi_sent s1 @ replicate n 0xFF"
     "DDRD s' = BV IDLE_BIT" "DDRC s' = 0" "PORTD s' = 0" "PORTC s' = 0"
     "PORTB s' = PORTB s1" "SPCR s' = SPCR s1"
     "edges (clock_high (PIND (fst (last ps)))) (snd (last ps)) + (n + 2) =
        edges (clock_high (PIND c)) f"
    by blast
  from len have ne: "ps \<noteq> []" by auto
  have step: "read_loop miso byte_count pin_d s cur fut =
      read_loop miso (byte_count - 1) (PIND c) s1 c f"
    using Suc.prems(1,3) w1 bc
    by (simp add: read_loop.simps [of miso byte_count] read_SPDR_def s1_def Let_def)
  have l: "[length (spi_sent s) ..< length (spi_sent s) + Suc n] =
     length (spi_sent s) # [length (spi_sent s1) ..< length (spi_sent s1) + n]"
    by (simp add: s1_def upt_rec)
  let ?ps = "(c, f) # ps"
  have "length ?ps = Suc n + 2" using len by simp
  moreover have "clocked_steps (cur, fut) ?ps" using w1 cs by simp
  moreover have "read_loop miso byte_count pin_d s cur fut = Some (s', last ?ps)"
    using step r ne by simp
  moreover have "bus_trace s' = bus_trace s @
        concat (map2 present_events
           (SPDR_rx s # map miso [length (spi_sent s) ..< length (spi_sent s) + Suc n])
           (butlast ?ps)) @
        release_events (last ?ps)"
    unfolding l using t ne by (simp add: s1_def present_events_def on_bus_def)
  moreover have "presented s' = presented s @ map on_bus
        (SPDR_rx s # map miso [length (spi_sent s) ..< length (spi_sent s) + Suc n])"
    unfolding l using p by (simp add: s1_def on_bus_def)
  moreover have "spi_sent s' = spi_sent s @ replicate (Suc n) 0xFF"
    using rest(1) by (simp add: s1_def replicate_append_same)
  moreover have "PORTB s' = PORTB s" "SPCR s' = SPCR s"
    using rest(6,7) by (simp_all add: s1_def)
  moreover have "edges (clock_high (PIND (fst (last ?ps)))) (snd (last ?ps)) + (Suc n + 2) =
       edges (clock_high (PIND cur)) fut"
    using rest(8) e1 ne by simp
  ultimately show ?case using rest(2-5) by blast
qed

lemma do_read_run:
  "unat byte_count + 2 \<le> edges (clock_high (PIND cur)) fut \<Longrightarrow>
   \<exists>s' ps. length ps = unat byte_count + 2 \<and> clocked_steps (cur, fut) ps \<and>
     do_read miso byte_count s cur fut = Some (s', last ps) \<and>
     bus_trace s' = bus_trace s @ drive_events (PIND cur) byte_count (cur, fut) @
        concat (map2 present_events
           (map miso [length (spi_sent s) ..< length (spi_sent s) + unat byte_count + 1])
           (butlast ps)) @
        release_events (last ps) \<and>
     presented s' = presented s @ map on_bus
        (map miso [length (spi_sent s) ..< length (spi_sent s) + unat byte_count + 1]) \<and>
     spi_sent s' = spi_sent s @ replicate (unat byte_count + 1) 0xFF \<and>
     DDRD s' = BV IDLE_BIT \<and> DDRC s' = 0 \<and> PORTD s' = 0 \<and> PORTC s' = 0 \<and>
     PORTB s' = PORTB s \<and> SPCR s' = SPCR s \<and>
     edges (clock_high (PIND (fst (last ps)))) (snd (last ps)) + (unat byte_count + 2) =
       edges (clock_high (PIND cur)) fut"
proof -
  assume a: "unat byte_count + 2 \<le> edges (clock_high (PIND cur)) fut"
  define s1 where "s1 =
     bus_store (Store_DDRC 0x3F) cur fut
       (bus_store (Store_PORTC (ucast (byte_count AND 0x3F))) cur fut
          (bus_store (Store_DDRD (0xC0 OR BV IDLE_BIT)) cur fut
             (bus_store (Store_PORTD ((PIND cur AND 0xC0) OR BV IDLE_BIT)) cur fut
                (write_SPDR miso 0xFF s))))"
  have d: "spi_done s1" using spi_done_write [of miso "0xFF" s]
    by (simp add: s1_def spi_done_def)
  have eq: "do_read miso byte_count s cur fut = read_loop miso byte_count (PIND cur) s1 cur fut"
    by (simp add: do_read_def s1_def Let_def)
  have l: "[length (spi_sent s) ..< length (spi_sent s) + unat byte_count + 1] =
     length (spi_sent s) # [length (spi_sent s1) ..< length (spi_sent s1) + unat byte_count]"
    by (simp add: s1_def upt_rec)
  from read_loop_run [OF d refl refl a, of miso] show ?thesis
    unfolding eq l by (simp add: s1_def replicate_append_same drive_events_def)
qed

text \<open>
  C1, the claim as stated fails. A read transfer entered with the decoded count 0 does not
  move zero bytes: it asks the card for one byte (\<open>0xA5\<close> here) and presents it on the
  buses, PORTD \<open>0x90\<close> and PORTC \<open>0xA5\<close>, before it releases them. The host offers two
  clocked steps.
\<close>

theorem do_read_count_zero_presents_one_byte:
  "map_option (\<lambda>r. (presented (fst r), spi_sent (fst r)))
     (do_read (\<lambda>n. 0xA5) 0 (main_init reset_state) \<lparr>PIND = 0, PINC = 0\<rparr>
        [\<lparr>PIND = 0x20, PINC = 0\<rparr>, \<lparr>PIND = 0, PINC = 0\<rparr>])
   = Some ([(0x90, 0xA5)], [0xFF])"
  by (simp add: do_read_def read_loop.simps [of _ 0] main_init_def reset_state_def
        write_SPDR_def read_SPDR_def spi_done_def clock_high_def bits_defs Let_def)

text \<open>
  C1, amended. For every count \<open>c\<close> (so for every \<open>c\<close> in [0, 8191]), once the controller
  enters the read transfer with decoded count \<open>c\<close> and the host offers at least \<open>c + 2\<close>
  clocked steps, the transfer returns, at the position \<open>last ps\<close> reached after exactly
  \<open>c + 2\<close> clocked steps (\<open>ps\<close> are the positions after each of them). Its stores to the
  bus registers are exactly these, in this order: before any clocked step it makes the data
  pins of both ports and the busy/idle pin outputs (\<open>drive_events\<close>); after clocked step
  number \<open>k + 1\<close>, for \<open>k\<close> from 0 to \<open>c\<close>, and before the next one, it presents the
  \<open>k\<close>-th byte that the card answered with (\<open>present_events\<close>), so \<open>c + 1\<close> bytes, one per
  clocked step; after clocked step \<open>c + 2\<close> it releases both data buses and leaves the
  busy/idle line low (\<open>release_events\<close>), so that DDRD, DDRC, PORTD and PORTC are as \<open>main\<close>
  configured them. It has sent \<open>c + 1\<close> filler bytes \<open>0xFF\<close> to the card. For \<open>c = 0\<close> that
  is one byte, not none.
\<close>

theorem do_read_presents_count_plus_one:
  assumes "unat c + 2 \<le> edges (clock_high (PIND cur)) fut"
  shows "\<exists>s' ps. length ps = unat c + 2 \<and> clocked_steps (cur, fut) ps \<and>
     do_read miso c s cur fut = Some (s', last ps) \<and>
     bus_trace s' = bus_trace s @ drive_events (PIND cur) c (cur, fut) @
        concat (map2 present_events
           (map miso [length (spi_sent s) ..< length (spi_sent s) + unat c + 1])
           (butlast ps)) @
        release_events (last ps) \<and>
     presented s' = presented s @ map on_bus
        (map miso [length (spi_sent s) ..< length (spi_sent s) + unat c + 1]) \<and>
     length (presented s') = length (presented s) + unat c + 1 \<and>
     spi_sent s' = spi_sent s @ replicate (unat c + 1) 0xFF \<and>
     DDRD s' = DDRD (main_init s) \<and> DDRC s' = DDRC (main_init s) \<and>
     PORTD s' = PORTD (main_init s) \<and> PORTC s' = PORTC (main_init s) \<and>
     edges (clock_high (PIND (fst (last ps)))) (snd (last ps)) + (unat c + 2) =
       edges (clock_high (PIND cur)) fut"
proof -
  from do_read_run [OF assms, of miso s] obtain s' ps where
    a: "length ps = unat c + 2" "clocked_steps (cur, fut) ps"
      "do_read miso c s cur fut = Some (s', last ps)"
      "bus_trace s' = bus_trace s @ drive_events (PIND cur) c (cur, fut) @
        concat (map2 present_events
           (map miso [length (spi_sent s) ..< length (spi_sent s) + unat c + 1])
           (butlast ps)) @
        release_events (last ps)" and
    p: "presented s' = presented s @ map on_bus
        (map miso [length (spi_sent s) ..< length (spi_sent s) + unat c + 1])" and
    rest: "spi_sent s' = spi_sent s @ replicate (unat c + 1) 0xFF"
      "DDRD s' = BV IDLE_BIT" "DDRC s' = 0" "PORTD s' = 0" "PORTC s' = 0"
      "edges (clock_high (PIND (fst (last ps)))) (snd (last ps)) + (unat c + 2) =
         edges (clock_high (PIND cur)) fut"
    by blast
  from p have "length (presented s') = length (presented s) + unat c + 1" by simp
  with a p rest show ?thesis
    by (intro exI [of _ s'] exI [of _ ps]) (simp add: main_init_def)
qed


theorem do_read_presents_count_plus_one_witness:
  "\<exists>s'. do_read (\<lambda>n. of_nat n + 0x41) 1 reset_state \<lparr>PIND = 0, PINC = 0\<rparr>
       [\<lparr>PIND = 0x20, PINC = 0\<rparr>, \<lparr>PIND = 0, PINC = 0\<rparr>, \<lparr>PIND = 0x20, PINC = 0\<rparr>]
       = Some (s', \<lparr>PIND = 0x20, PINC = 0\<rparr>, []) \<and>
     bus_trace s' =
       [(Store_PORTD 0x10, \<lparr>PIND = 0, PINC = 0\<rparr>,
           [\<lparr>PIND = 0x20, PINC = 0\<rparr>, \<lparr>PIND = 0, PINC = 0\<rparr>, \<lparr>PIND = 0x20, PINC = 0\<rparr>]),
        (Store_DDRD 0xD0, \<lparr>PIND = 0, PINC = 0\<rparr>,
           [\<lparr>PIND = 0x20, PINC = 0\<rparr>, \<lparr>PIND = 0, PINC = 0\<rparr>, \<lparr>PIND = 0x20, PINC = 0\<rparr>]),
        (Store_PORTC 0x01, \<lparr>PIND = 0, PINC = 0\<rparr>,
           [\<lparr>PIND = 0x20, PINC = 0\<rparr>, \<lparr>PIND = 0, PINC = 0\<rparr>, \<lparr>PIND = 0x20, PINC = 0\<rparr>]),
        (Store_DDRC 0x3F, \<lparr>PIND = 0, PINC = 0\<rparr>,
           [\<lparr>PIND = 0x20, PINC = 0\<rparr>, \<lparr>PIND = 0, PINC = 0\<rparr>, \<lparr>PIND = 0x20, PINC = 0\<rparr>]),
        (Store_PORTD 0x50, \<lparr>PIND = 0x20, PINC = 0\<rparr>,
           [\<lparr>PIND = 0, PINC = 0\<rparr>, \<lparr>PIND = 0x20, PINC = 0\<rparr>]),
        (Store_PORTC 0x41, \<lparr>PIND = 0x20, PINC = 0\<rparr>,
           [\<lparr>PIND = 0, PINC = 0\<rparr>, \<lparr>PIND = 0x20, PINC = 0\<rparr>]),
        (Store_PORTD 0x50, \<lparr>PIND = 0, PINC = 0\<rparr>, [\<lparr>PIND = 0x20, PINC = 0\<rparr>]),
        (Store_PORTC 0x42, \<lparr>PIND = 0, PINC = 0\<rparr>, [\<lparr>PIND = 0x20, PINC = 0\<rparr>]),
        (Store_DDRD 0x10, \<lparr>PIND = 0x20, PINC = 0\<rparr>, []),
        (Store_DDRC 0, \<lparr>PIND = 0x20, PINC = 0\<rparr>, []),
        (Store_PORTD 0, \<lparr>PIND = 0x20, PINC = 0\<rparr>, []),
        (Store_PORTC 0, \<lparr>PIND = 0x20, PINC = 0\<rparr>, [])] \<and>
     presented s' = [(0x50, 0x41), (0x50, 0x42)] \<and>
     spi_sent s' = [0xFF, 0xFF] \<and>
     DDRD s' = 0x10 \<and> DDRC s' = 0 \<and> PORTD s' = 0 \<and> PORTC s' = 0"
proof -
  let ?p0 = "\<lparr>PIND = 0, PINC = 0\<rparr>" and ?p1 = "\<lparr>PIND = 0x20, PINC = 0\<rparr>"
  have h: "unat (1 :: uint16_t) + 2 \<le> edges (clock_high (PIND ?p0)) [?p1, ?p0, ?p1]"
    by (simp add: clock_high_def bits_defs)
  from do_read_presents_count_plus_one [OF h, of "\<lambda>n. of_nat n + 0x41" reset_state]
  obtain s' ps where
    l0: "length ps = unat (1 :: uint16_t) + 2" and cs: "clocked_steps (?p0, [?p1, ?p0, ?p1]) ps" and
    r: "do_read (\<lambda>n. of_nat n + 0x41) 1 reset_state ?p0 [?p1, ?p0, ?p1] = Some (s', last ps)" and
    t: "bus_trace s' = bus_trace reset_state @ drive_events (PIND ?p0) 1 (?p0, [?p1, ?p0, ?p1]) @
        concat (map2 present_events
           (map (\<lambda>n. of_nat n + 0x41)
              [length (spi_sent reset_state) ..< length (spi_sent reset_state) + unat (1 :: uint16_t) + 1])
           (butlast ps)) @
        release_events (last ps)" and
    p: "presented s' = presented reset_state @ map on_bus
        (map (\<lambda>n. of_nat n + 0x41)
           [length (spi_sent reset_state) ..< length (spi_sent reset_state) + unat (1 :: uint16_t) + 1])" and
    rest: "spi_sent s' = spi_sent reset_state @ replicate (unat (1 :: uint16_t) + 1) 0xFF"
      "DDRD s' = DDRD (main_init reset_state)" "DDRC s' = DDRC (main_init reset_state)"
      "PORTD s' = PORTD (main_init reset_state)" "PORTC s' = PORTC (main_init reset_state)"
    by blast
  from l0 have l: "length ps = 3" by simp
  from l obtain a b c where ps: "ps = [a, b, c]"
    by (auto simp add: length_Suc_conv numeral_3_eq_3)
  from cs have abc: "a = (?p1, [?p0, ?p1])" "b = (?p0, [?p1])" "c = (?p1, [])"
    unfolding ps by (auto simp add: clock_high_def bits_defs)
  have u: "[0 ..< 2] = [0, 1 :: nat]" by (simp add: upt_rec)
  from r t p rest show ?thesis
    unfolding ps abc
    by (simp add: reset_state_def main_init_def on_bus_def bits_defs u
          drive_events_def present_events_def release_events_def)
qed

subsection \<open>Bits of the header bytes\<close>

lemma bit_C0: "bit (0xC0 :: int) n \<longleftrightarrow> n = 6 \<or> n = 7"
proof -
  have e: "(0xC0 :: int) = push_bit 6 (mask 2)" by (simp add: mask_eq_exp_minus_1)
  show ?thesis by (subst e, simp only: bit_push_bit_iff bit_mask_iff) auto
qed

lemma bit_3F: "bit (0x3F :: int) n \<longleftrightarrow> n < 6"
proof -
  have e: "(0x3F :: int) = mask 6" by (simp add: mask_eq_exp_minus_1)
  show ?thesis by (subst e, simp only: bit_mask_iff) auto
qed

lemma bit_1F: "bit (0x1F :: int) n \<longleftrightarrow> n < 5"
proof -
  have e: "(0x1F :: int) = mask 5" by (simp add: mask_eq_exp_minus_1)
  show ?thesis by (subst e, simp only: bit_mask_iff) auto
qed

lemma bit_3E: "bit (0x3E :: int) n \<longleftrightarrow> 1 \<le> n \<and> n < 6"
proof -
  have e: "(0x3E :: int) = push_bit 1 (mask 5)" by (simp add: mask_eq_exp_minus_1)
  show ?thesis by (subst e, simp only: bit_push_bit_iff bit_mask_iff) auto
qed

lemmas mask_bits = bit_C0 bit_3F bit_1F bit_3E

lemma test_80: "((w :: uint8_t) AND 0x80 = 0) = (\<not> bit w 7)"
  using and_exp_eq_0_iff_not_bit [of w 7] by simp

lemma test_40: "((w :: uint8_t) AND 0x40 = 0) = (\<not> bit w 6)"
  using and_exp_eq_0_iff_not_bit [of w 6] by simp

lemma test_20: "((w :: uint8_t) AND 0x20 = 0) = (\<not> bit w 5)"
  using and_exp_eq_0_iff_not_bit [of w 5] by simp

lemma test_01: "((w :: uint8_t) AND 1 = 0) = (\<not> bit w 0)"
  using and_exp_eq_0_iff_not_bit [of w 0] by simp

lemmas bit_tests = test_80 test_40 test_20 test_01

lemma bus_bit_hi: "6 \<le> n \<Longrightarrow> bit (bus_byte p) n = bit (PIND p) n"
  by (auto simp add: bus_byte_def bit_simps mask_bits dest: bit_imp_le_length)

lemma bus_bit_lo: "n < 6 \<Longrightarrow> bit (bus_byte p) n = bit (PINC p) n"
  by (auto simp add: bus_byte_def bit_simps mask_bits)

lemma bus_3E: "bus_byte p AND 0x3E = PINC p AND 0x3E"
  by (rule bit_eqI) (auto simp add: bit_simps mask_bits bus_bit_lo)

lemma bus_1F: "bus_byte p AND 0x1F = PINC p AND 0x1F"
  by (rule bit_eqI) (auto simp add: bit_simps mask_bits bus_bit_lo)

lemma bus_C0: "bus_byte p AND 0xC0 = PIND p AND 0xC0"
  by (rule bit_eqI) (auto simp add: bit_simps mask_bits bus_bit_hi)

lemma PINC_low: "PINC p AND 0xC0 = 0 \<Longrightarrow> bit (PINC p) n \<Longrightarrow> n < 6"
proof (rule ccontr)
  assume a: "PINC p AND 0xC0 = 0" and b: "bit (PINC p) n" and c: "\<not> n < 6"
  from b have "n < 8" by (auto dest: bit_imp_le_length)
  with b c have "bit (PINC p AND 0xC0) n" by (simp add: bit_simps mask_bits) arith
  then show False unfolding a by simp
qed

lemma bus_3F: "PINC p AND 0xC0 = 0 \<Longrightarrow> bus_byte p AND 0x3F = PINC p"
  by (rule bit_eqI) (auto simp add: bit_simps mask_bits bus_bit_lo dest: PINC_low)

lemma bus_split:
  "PINC p AND 0xC0 = 0 \<Longrightarrow>
   (ucast ((PIND p AND 0xC0) OR PINC p) :: uint16_t) =
     ucast (bus_byte p AND 0xC0) OR ucast (bus_byte p AND 0x3F)"
  by (simp add: bus_3F bus_C0) (rule bit_eqI, auto simp add: bit_simps)

subsection \<open>Frame decoding\<close>

text \<open>
  C2, the claim as stated fails. The host clocks in the header bytes \<open>0x81\<close> (top bit set,
  bit 6 clear, bits 1 to 5 clear, bit 0 set) and \<open>0x40\<close> (bit 6 set). By the specification's
  algorithm bit 6 of the second byte is set, so the frame is no long header, and it is the
  clock-rate command that bit 0 selects. The firmware tests bit 6 of the first byte: it
  decodes a long header and goes to the write transfer with count \<open>0x140\<close>, the clock rate
  untouched.
\<close>

theorem spec_decode_differs_from_firmware:
  "bus_byte \<lparr>PIND = 0xA0, PINC = 0x01\<rparr> = 0x81 \<and>
   bus_byte \<lparr>PIND = 0x40, PINC = 0x00\<rparr> = 0x40 \<and>
   spec_decode 0x81 0x40 = Clock_rate True \<and>
   main_loop_head reset_state \<lparr>PIND = 0, PINC = 0\<rparr>
       [\<lparr>PIND = 0xA0, PINC = 0x01\<rparr>, \<lparr>PIND = 0x40, PINC = 0x00\<rparr>]
     = Some (Goto_do_write 0x140 0x40, reset_state, \<lparr>PIND = 0x40, PINC = 0x00\<rparr>, []) \<and>
   main_loop_head reset_state \<lparr>PIND = 0, PINC = 0\<rparr>
       [\<lparr>PIND = 0xA0, PINC = 0x01\<rparr>, \<lparr>PIND = 0x40, PINC = 0x00\<rparr>]
     \<noteq> Some (frame_outcome (spec_decode 0x81 0x40) reset_state
              (\<lparr>PIND = 0xA0, PINC = 0x01\<rparr>, [\<lparr>PIND = 0x40, PINC = 0x00\<rparr>])
              (\<lparr>PIND = 0x40, PINC = 0x00\<rparr>, []))"
  by (simp add: bus_byte_def spec_decode_def main_loop_head_def clock_high_def bits_defs
        Let_def)

text \<open>
  C2, amended. The frame decoding follows the specification's algorithm with one change:
  the long header is recognised by bit 6 of the first byte, not of the second, and the
  second byte is sampled (on the next clocked step) only for a long header. With
  \<open>byte0\<close> the byte on the buses after the first clocked step and \<open>byte1\<close> the byte after
  the next one, and with the two unused upper bits of port C reading 0:
  top bit of \<open>byte0\<close> clear is a single-byte header, bit 6 of \<open>byte0\<close> selecting read
  (set) or write (clear), with the low six bits as count; top bit set and bit 6 of
  \<open>byte0\<close> clear is a long header with count (bits 0 to 4 of \<open>byte0\<close>, shifted left 8) OR
  (bits 6 to 7 of \<open>byte1\<close>) OR (low six bits of \<open>byte1\<close>) and direction from bit 5 of
  \<open>byte0\<close>; top bit and bit 6 of \<open>byte0\<close> set with bits 1 to 5 clear is a clock-rate
  command selected by bit 0 of \<open>byte0\<close> (set: fast), with no further byte exchanged.
\<close>

theorem main_loop_head_decodes_frame:
  assumes "wait_clock (clock_high (PIND cur)) cur fut = Some (c0, f0)"
      and "wait_clock (clock_high (PIND c0)) c0 f0 = Some (c1, f1)"
      and "PINC c0 AND 0xC0 = 0" and "PINC c1 AND 0xC0 = 0"
  shows "main_loop_head s cur fut =
     Some (frame_outcome (frame_decode (bus_byte c0) (bus_byte c1)) s (c0, f0) (c1, f1))"
  using assms(1,2)
  by (simp add: main_loop_head_def frame_decode_def bit_tests bus_bit_hi bus_bit_lo bus_3E
        bus_1F bus_3F [OF assms(3)] bus_split [OF assms(4)] Let_def)

theorem main_loop_head_decodes_frame_witness:
  "main_loop_head reset_state \<lparr>PIND = 0, PINC = 0\<rparr>
       [\<lparr>PIND = 0xA0, PINC = 0x23\<rparr>, \<lparr>PIND = 0x40, PINC = 0x05\<rparr>]
     = Some (Goto_do_read 0x345, reset_state, \<lparr>PIND = 0x40, PINC = 0x05\<rparr>, []) \<and>
   frame_decode 0xA3 0x45 = Long_header Read 0x345 \<and>
   main_loop_head reset_state \<lparr>PIND = 0, PINC = 0\<rparr>
       [\<lparr>PIND = 0x60, PINC = 0x3F\<rparr>, \<lparr>PIND = 0x00, PINC = 0x00\<rparr>]
     = Some (Goto_do_read 0x3F, reset_state, \<lparr>PIND = 0x60, PINC = 0x3F\<rparr>,
             [\<lparr>PIND = 0x00, PINC = 0x00\<rparr>]) \<and>
   frame_decode 0x7F 0x00 = Short_header Read 0x3F \<and>
   main_loop_head reset_state \<lparr>PIND = 0, PINC = 0\<rparr>
       [\<lparr>PIND = 0xE0, PINC = 0x01\<rparr>, \<lparr>PIND = 0x00, PINC = 0x00\<rparr>]
     = Some (Goto_main_loop, reset_state\<lparr>SPCR := 0x50\<rparr>, \<lparr>PIND = 0xE0, PINC = 0x01\<rparr>,
             [\<lparr>PIND = 0x00, PINC = 0x00\<rparr>]) \<and>
   frame_decode 0xC1 0x00 = Clock_rate True"
proof -
  have w0: "wait_clock (clock_high (PIND \<lparr>PIND = 0, PINC = 0\<rparr>)) \<lparr>PIND = 0, PINC = 0\<rparr>
       [\<lparr>PIND = 0xA0, PINC = 0x23\<rparr>, \<lparr>PIND = 0x40, PINC = 0x05\<rparr>]
     = Some (\<lparr>PIND = 0xA0, PINC = 0x23\<rparr>, [\<lparr>PIND = 0x40, PINC = 0x05\<rparr>])"
    by (simp add: clock_high_def bits_defs)
  have w1: "wait_clock (clock_high (PIND \<lparr>PIND = 0xA0, PINC = 0x23\<rparr>))
       \<lparr>PIND = 0xA0, PINC = 0x23\<rparr> [\<lparr>PIND = 0x40, PINC = 0x05\<rparr>]
     = Some (\<lparr>PIND = 0x40, PINC = 0x05\<rparr>, [])"
    by (simp add: clock_high_def bits_defs)
  have p0: "PINC \<lparr>PIND = 0xA0, PINC = 0x23\<rparr> AND 0xC0 = 0" by simp
  have p1: "PINC \<lparr>PIND = 0x40, PINC = 0x05\<rparr> AND 0xC0 = 0" by simp
  have d: "frame_decode 0xA3 0x45 = Long_header Read 0x345"
    by (simp add: frame_decode_def)
  from main_loop_head_decodes_frame [OF w0 w1 p0 p1, of reset_state] d
  have long: "main_loop_head reset_state \<lparr>PIND = 0, PINC = 0\<rparr>
       [\<lparr>PIND = 0xA0, PINC = 0x23\<rparr>, \<lparr>PIND = 0x40, PINC = 0x05\<rparr>]
     = Some (Goto_do_read 0x345, reset_state, \<lparr>PIND = 0x40, PINC = 0x05\<rparr>, [])"
    by (simp add: bus_byte_def)
  have v0: "wait_clock (clock_high (PIND \<lparr>PIND = 0, PINC = 0\<rparr>)) \<lparr>PIND = 0, PINC = 0\<rparr>
       [\<lparr>PIND = 0x60, PINC = 0x3F\<rparr>, \<lparr>PIND = 0x00, PINC = 0x00\<rparr>]
     = Some (\<lparr>PIND = 0x60, PINC = 0x3F\<rparr>, [\<lparr>PIND = 0x00, PINC = 0x00\<rparr>])"
    by (simp add: clock_high_def bits_defs)
  have v1: "wait_clock (clock_high (PIND \<lparr>PIND = 0x60, PINC = 0x3F\<rparr>))
       \<lparr>PIND = 0x60, PINC = 0x3F\<rparr> [\<lparr>PIND = 0x00, PINC = 0x00\<rparr>]
     = Some (\<lparr>PIND = 0x00, PINC = 0x00\<rparr>, [])"
    by (simp add: clock_high_def bits_defs)
  have q0: "PINC \<lparr>PIND = 0x60, PINC = 0x3F\<rparr> AND 0xC0 = 0" by simp
  have q1: "PINC \<lparr>PIND = 0x00, PINC = 0x00\<rparr> AND 0xC0 = 0" by simp
  have ds: "frame_decode 0x7F 0x00 = Short_header Read 0x3F"
    by (simp add: frame_decode_def)
  from main_loop_head_decodes_frame [OF v0 v1 q0 q1, of reset_state] ds
  have short: "main_loop_head reset_state \<lparr>PIND = 0, PINC = 0\<rparr>
       [\<lparr>PIND = 0x60, PINC = 0x3F\<rparr>, \<lparr>PIND = 0x00, PINC = 0x00\<rparr>]
     = Some (Goto_do_read 0x3F, reset_state, \<lparr>PIND = 0x60, PINC = 0x3F\<rparr>,
             [\<lparr>PIND = 0x00, PINC = 0x00\<rparr>])"
    by (simp add: bus_byte_def)
  have u0: "wait_clock (clock_high (PIND \<lparr>PIND = 0, PINC = 0\<rparr>)) \<lparr>PIND = 0, PINC = 0\<rparr>
       [\<lparr>PIND = 0xE0, PINC = 0x01\<rparr>, \<lparr>PIND = 0x00, PINC = 0x00\<rparr>]
     = Some (\<lparr>PIND = 0xE0, PINC = 0x01\<rparr>, [\<lparr>PIND = 0x00, PINC = 0x00\<rparr>])"
    by (simp add: clock_high_def bits_defs)
  have u1: "wait_clock (clock_high (PIND \<lparr>PIND = 0xE0, PINC = 0x01\<rparr>))
       \<lparr>PIND = 0xE0, PINC = 0x01\<rparr> [\<lparr>PIND = 0x00, PINC = 0x00\<rparr>]
     = Some (\<lparr>PIND = 0x00, PINC = 0x00\<rparr>, [])"
    by (simp add: clock_high_def bits_defs)
  have r0: "PINC \<lparr>PIND = 0xE0, PINC = 0x01\<rparr> AND 0xC0 = 0" by simp
  have dc: "frame_decode 0xC1 0x00 = Clock_rate True"
    by (simp add: frame_decode_def)
  from main_loop_head_decodes_frame [OF u0 u1 r0 q1, of reset_state] dc
  have rate: "main_loop_head reset_state \<lparr>PIND = 0, PINC = 0\<rparr>
       [\<lparr>PIND = 0xE0, PINC = 0x01\<rparr>, \<lparr>PIND = 0x00, PINC = 0x00\<rparr>]
     = Some (Goto_main_loop, reset_state\<lparr>SPCR := 0x50\<rparr>, \<lparr>PIND = 0xE0, PINC = 0x01\<rparr>,
             [\<lparr>PIND = 0x00, PINC = 0x00\<rparr>])"
    by (simp add: bus_byte_def bits_defs)
  from long d short ds rate dc show ?thesis by simp
qed

text \<open>
  C5, the claim as stated fails. The first header byte is \<open>0x82\<close>, the byte of the
  specification's scenario (top bit set, bits 1 to 5 not all zero), and the second byte
  \<open>0x40\<close> has bit 6 set: none of the three shapes as the claim words them. The firmware
  does not return to the frame wait: bit 6 of the first byte is clear, so it takes the
  second byte as the rest of a long header and goes to the write transfer with count
  \<open>0x240\<close>.
\<close>

theorem unrecognised_by_claim_enters_write_transfer:
  "bit (bus_byte \<lparr>PIND = 0xA0, PINC = 0x02\<rparr>) 7 \<and>
   bit (bus_byte \<lparr>PIND = 0x40, PINC = 0x00\<rparr>) 6 \<and>
   bus_byte \<lparr>PIND = 0xA0, PINC = 0x02\<rparr> AND 0x3E \<noteq> 0 \<and>
   bus_byte \<lparr>PIND = 0xA0, PINC = 0x02\<rparr> = 0x82 \<and>
   main_loop_head reset_state \<lparr>PIND = 0, PINC = 0\<rparr>
       [\<lparr>PIND = 0xA0, PINC = 0x02\<rparr>, \<lparr>PIND = 0x40, PINC = 0x00\<rparr>]
     = Some (Goto_do_write 0x240 0x40, reset_state, \<lparr>PIND = 0x40, PINC = 0x00\<rparr>, [])"
  by (simp add: bus_byte_def main_loop_head_def clock_high_def bits_defs Let_def)

text \<open>
  C5, amended. When the first header byte has its top bit set, its bit 6 set and bits 1
  to 5 not all zero (the one pattern the firmware recognises as none of the three
  shapes), the controller goes back to the frame wait: it enters no transfer phase,
  leaves every register, the clock rate included, as it was, sends nothing to the card,
  and samples no byte beyond that first one. It raises no error condition.
\<close>

theorem unrecognised_header_returns_to_main_loop:
  assumes "wait_clock (clock_high (PIND cur)) cur fut = Some (c0, f0)"
      and "bit (bus_byte c0) 7" and "bit (bus_byte c0) 6" and "bus_byte c0 AND 0x3E \<noteq> 0"
  shows "main_loop_head s cur fut = Some (Goto_main_loop, s, c0, f0) \<and>
         main_loop miso s cur fut = Some (s, c0, f0)"
proof -
  from assms have "main_loop_head s cur fut = Some (Goto_main_loop, s, c0, f0)"
    by (simp add: main_loop_head_def bit_tests bus_bit_hi bus_3E Let_def)
  then show ?thesis by (simp add: main_loop_def)
qed

theorem unrecognised_header_returns_to_main_loop_witness:
  "main_loop (\<lambda>n. 0) reset_state \<lparr>PIND = 0, PINC = 0\<rparr>
       [\<lparr>PIND = 0xE0, PINC = 0x02\<rparr>, \<lparr>PIND = 0x40, PINC = 0x00\<rparr>]
     = Some (reset_state, \<lparr>PIND = 0xE0, PINC = 0x02\<rparr>, [\<lparr>PIND = 0x40, PINC = 0x00\<rparr>])"
proof -
  have w0: "wait_clock (clock_high (PIND \<lparr>PIND = 0, PINC = 0\<rparr>)) \<lparr>PIND = 0, PINC = 0\<rparr>
       [\<lparr>PIND = 0xE0, PINC = 0x02\<rparr>, \<lparr>PIND = 0x40, PINC = 0x00\<rparr>]
     = Some (\<lparr>PIND = 0xE0, PINC = 0x02\<rparr>, [\<lparr>PIND = 0x40, PINC = 0x00\<rparr>])"
    by (simp add: clock_high_def bits_defs)
  have b: "bus_byte \<lparr>PIND = 0xE0, PINC = 0x02\<rparr> = 0xC2" by (simp add: bus_byte_def)
  have b7: "bit (bus_byte \<lparr>PIND = 0xE0, PINC = 0x02\<rparr>) 7" unfolding b by simp
  have b6: "bit (bus_byte \<lparr>PIND = 0xE0, PINC = 0x02\<rparr>) 6" unfolding b by simp
  have b15: "bus_byte \<lparr>PIND = 0xE0, PINC = 0x02\<rparr> AND 0x3E \<noteq> 0" unfolding b by simp
  from unrecognised_header_returns_to_main_loop [OF w0 b7 b6 b15, of reset_state "\<lambda>n. 0"]
  show ?thesis by simp
qed

subsection \<open>The detect mirror\<close>

text \<open>The phases of the program leave the registers of the detect mirror alone.\<close>

lemma mirror_regs_bus_store [simp]: "mirror_regs (bus_store ev c f s) = mirror_regs s"
  by (cases ev) (simp_all add: mirror_regs_def)

lemma mirror_regs_write_SPDR [simp]: "mirror_regs (write_SPDR miso v s) = mirror_regs s"
  by (simp add: mirror_regs_def write_SPDR_def)

lemma mirror_regs_read_SPDR [simp]: "mirror_regs (snd (read_SPDR s)) = mirror_regs s"
  by (simp add: mirror_regs_def read_SPDR_def)

lemma mirror_regs_upd [simp]:
  "mirror_regs (s\<lparr>presented := x\<rparr>) = mirror_regs s"
  "mirror_regs (s\<lparr>SPSR := y\<rparr>) = mirror_regs s"
  "mirror_regs (s\<lparr>SPCR := z\<rparr>) = mirror_regs s"
  by (simp_all add: mirror_regs_def)

lemma read_loop_mirror:
  "unat byte_count = n \<Longrightarrow> read_loop miso byte_count pin_d s cur fut = Some (s', e) \<Longrightarrow>
   mirror_regs s' = mirror_regs s"
proof (induction n arbitrary: byte_count pin_d s cur fut)
  case 0
  then have "byte_count = 0" by (simp add: unat_eq_0)
  with "0.prems"(2) show ?case
    by (auto simp add: read_loop.simps [of miso 0] read_SPDR_def Let_def mirror_regs_def
          split: if_splits option.splits)
next
  case (Suc n)
  then have bc: "byte_count \<noteq> 0" by auto
  with Suc.prems have n: "unat (byte_count - 1) = n" by (simp add: unat_minus_one)
  from Suc.prems(2) bc obtain c f s1 where
    "read_loop miso (byte_count - 1) (PIND c) s1 c f = Some (s', e)"
    "mirror_regs s1 = mirror_regs s"
    by (auto simp add: read_loop.simps [of miso byte_count] read_SPDR_def Let_def
          mirror_regs_def write_SPDR_def split: if_splits option.splits)
  with Suc.IH [OF n] show ?case by simp
qed

lemma write_loop_mirror:
  "unat byte_count = n \<Longrightarrow> write_loop miso byte_count pin_d s cur fut = Some (s', e) \<Longrightarrow>
   mirror_regs s' = mirror_regs s"
proof (induction n arbitrary: byte_count pin_d s cur fut)
  case 0
  then have "byte_count = 0" by (simp add: unat_eq_0)
  with "0.prems"(2) show ?case
    by (auto simp add: write_loop.simps [of miso 0] Let_def mirror_regs_def read_SPDR_def
          write_SPDR_def split: if_splits option.splits)
next
  case (Suc n)
  then have bc: "byte_count \<noteq> 0" by auto
  with Suc.prems have n: "unat (byte_count - 1) = n" by (simp add: unat_minus_one)
  from Suc.prems(2) bc obtain c f s1 where
    "write_loop miso (byte_count - 1) (PIND c) s1 c f = Some (s', e)"
    "mirror_regs s1 = mirror_regs s"
    by (auto simp add: write_loop.simps [of miso byte_count] Let_def mirror_regs_def
          read_SPDR_def write_SPDR_def split: if_splits option.splits)
  with Suc.IH [OF n] show ?case by simp
qed

lemma do_read_mirror:
  "do_read miso byte_count s cur fut = Some (s', e) \<Longrightarrow> mirror_regs s' = mirror_regs s"
  apply (simp add: do_read_def Let_def)
  apply (drule read_loop_mirror [OF refl])
  apply (simp add: mirror_regs_def write_SPDR_def)
  done

lemma do_write_mirror:
  "do_write miso byte_count pin_d s cur fut = Some (s', e) \<Longrightarrow> mirror_regs s' = mirror_regs s"
  apply (simp add: do_write_def)
  apply (drule write_loop_mirror [OF refl])
  apply (simp add: mirror_regs_def)
  done

lemma main_loop_head_mirror:
  "main_loop_head s cur fut = Some (l, s', e) \<Longrightarrow> mirror_regs s' = mirror_regs s"
  by (auto simp add: main_loop_head_def Let_def mirror_regs_def split: option.splits if_splits)

lemma main_loop_mirror:
  "main_loop miso s cur fut = Some (s', e) \<Longrightarrow> mirror_regs s' = mirror_regs s"
  by (auto simp add: main_loop_def split: option.splits label.splits
        dest!: main_loop_head_mirror do_read_mirror do_write_mirror)

lemma test_bit_0: "((w :: uint8_t) AND 1 \<noteq> 0) = bit w 0"
  using and_exp_eq_0_iff_not_bit [of w 0] by simp

lemma PORTB_main_init: "PORTB (main_init s) = 5"
  by (simp add: main_init_def bits_defs)

lemma PCINT0_vect_ack: "bit (PORTB (PCINT0_vect pinb s)) ACK_BIT = (\<not> bit pinb CD_BIT)"
  by (simp add: PCINT0_vect_def bits_defs bit_simps test_bit_0)

lemma PCINT0_vect_rest:
  "PORTB (PCINT0_vect pinb s) AND NOT (BV ACK_BIT) = PORTB s AND NOT (BV ACK_BIT)"
  by (rule bit_eqI) (auto simp add: PCINT0_vect_def bit_simps)

lemma PCINT0_vect_frame:
  "DDRB (PCINT0_vect pinb s) = DDRB s" "PCICR (PCINT0_vect pinb s) = PCICR s"
  "PCMSK0 (PCINT0_vect pinb s) = PCMSK0 s" "interrupts_on (PCINT0_vect pinb s) = interrupts_on s"
  by (simp_all add: PCINT0_vect_def)

lemma main_init_mirror:
  "bit (DDRB (main_init s)) ACK_BIT" "mirror_enabled (main_init s)"
  by (simp_all add: main_init_def mirror_enabled_def bits_defs bit_simps)

lemma step_phase_mirror:
  "step e s = Some s' \<Longrightarrow> latest_detect [e] = None \<Longrightarrow> mirror_regs s' = mirror_regs s"
  by (cases e) (auto dest: main_loop_head_mirror do_read_mirror do_write_mirror)

lemma mirror_regs_fields:
  "mirror_regs s' = mirror_regs s \<Longrightarrow>
   DDRB s' = DDRB s \<and> PORTB s' = PORTB s \<and> mirror_enabled s' = mirror_enabled s"
  by (simp add: mirror_regs_def mirror_enabled_def)

lemma step_mirror:
  assumes "step e s = Some s'" and "bit (DDRB s) ACK_BIT" and "mirror_enabled s"
  shows "bit (DDRB s') ACK_BIT \<and> mirror_enabled s' \<and>
     PORTB s' AND NOT (BV ACK_BIT) = PORTB s AND NOT (BV ACK_BIT) \<and>
     (case latest_detect [e] of
        None \<Rightarrow> bit (PORTB s') ACK_BIT = bit (PORTB s) ACK_BIT
      | Some pinb \<Rightarrow> bit (PORTB s') ACK_BIT = (\<not> bit pinb CD_BIT))"
proof (cases "latest_detect [e]")
  case None
  from step_phase_mirror [OF assms(1) None] mirror_regs_fields [of s' s] assms(2,3) None
  show ?thesis by simp
next
  case (Some pinb)
  then have e: "e = Detect_change pinb" by (cases e) simp_all
  with assms show ?thesis
    by (auto simp add: pin_change_def PCINT0_vect_ack PCINT0_vect_rest PCINT0_vect_frame
          mirror_enabled_def)
qed

lemma run_mirror:
  "run evs s = Some s' \<Longrightarrow> bit (DDRB s) ACK_BIT \<Longrightarrow> mirror_enabled s \<Longrightarrow>
   bit (DDRB s') ACK_BIT \<and> mirror_enabled s' \<and>
   PORTB s' AND NOT (BV ACK_BIT) = PORTB s AND NOT (BV ACK_BIT) \<and>
   (case latest_detect evs of
      None \<Rightarrow> bit (PORTB s') ACK_BIT = bit (PORTB s) ACK_BIT
    | Some pinb \<Rightarrow> bit (PORTB s') ACK_BIT = (\<not> bit pinb CD_BIT))"
proof (induction evs arbitrary: s)
  case Nil
  then show ?case by simp
next
  case (Cons e es)
  from Cons.prems(1) obtain s1 where
    s1: "step e s = Some s1" and r: "run es s1 = Some s'"
    by (auto split: option.splits)
  from step_mirror [OF s1 Cons.prems(2,3)] have
    m1: "bit (DDRB s1) ACK_BIT" "mirror_enabled s1"
      "PORTB s1 AND NOT (BV ACK_BIT) = PORTB s AND NOT (BV ACK_BIT)" and
    a1: "case latest_detect [e] of
        None \<Rightarrow> bit (PORTB s1) ACK_BIT = bit (PORTB s) ACK_BIT
      | Some pinb \<Rightarrow> bit (PORTB s1) ACK_BIT = (\<not> bit pinb CD_BIT)"
    by simp_all
  from Cons.IH [OF r m1(1,2)] have
    m: "bit (DDRB s') ACK_BIT" "mirror_enabled s'"
      "PORTB s' AND NOT (BV ACK_BIT) = PORTB s1 AND NOT (BV ACK_BIT)" and
    a: "case latest_detect es of
      None \<Rightarrow> bit (PORTB s') ACK_BIT = bit (PORTB s1) ACK_BIT
    | Some pinb \<Rightarrow> bit (PORTB s') ACK_BIT = (\<not> bit pinb CD_BIT)"
    by simp_all
  from m m1(3) a a1 show ?case
    by (auto split: option.splits event.splits)
qed

text \<open>
  C4, the claim as stated fails. After the configuration in \<open>main\<close> the interrupt line
  (bit ACK of PORTB) is low. With a card in the socket at start-up the detect line is low
  as well (PINB reads \<open>0x04\<close>: SS high, CD' low), so before the first transition the
  interrupt line is not the inverse of the detect line.
\<close>

theorem ack_after_init_not_inverse:
  "\<not> (bit (PORTB (main_init reset_state)) ACK_BIT = (\<not> bit (0x04 :: uint8_t) CD_BIT))"
  by (simp add: PORTB_main_init ACK_BIT_def CD_BIT_def)

text \<open>
  C4, amended. The configuration in \<open>main\<close> makes the interrupt line an output, drives it
  low whatever the detect level is, and enables the pin-change interrupt of the detect
  pin. From then on, in every state that the controller reaches by changes of the detect
  pin and phases of the program in any order, the line is still an output and the
  interrupt is still enabled, so the handler runs on every detect transition; and from
  the first detect transition on the interrupt line is the logical inverse of the detect
  level at the latest transition, whatever happened before (no debouncing), the program's
  transfers included. Only before the first transition is the line low whatever the
  detect level. Every run of the handler sets the line to the inverse of the detect level
  it reads and changes no other bit of PORTB.
\<close>

theorem detect_mirror_invariant:
  "bit (PORTB (PCINT0_vect pinb s)) ACK_BIT = (\<not> bit pinb CD_BIT) \<and>
   PORTB (PCINT0_vect pinb s) AND NOT (BV ACK_BIT) = PORTB s AND NOT (BV ACK_BIT) \<and>
   \<not> bit (PORTB (main_init s)) ACK_BIT \<and>
   bit (DDRB (main_init s)) ACK_BIT \<and> mirror_enabled (main_init s) \<and>
   (\<forall>evs s'. run evs (main_init s) = Some s' \<longrightarrow>
      bit (DDRB s') ACK_BIT \<and> mirror_enabled s' \<and>
      (case latest_detect evs of
         None \<Rightarrow> \<not> bit (PORTB s') ACK_BIT
       | Some p \<Rightarrow> bit (PORTB s') ACK_BIT = (\<not> bit p CD_BIT)))"
proof (intro conjI allI impI)
  show "bit (PORTB (PCINT0_vect pinb s)) ACK_BIT = (\<not> bit pinb CD_BIT)"
    by (rule PCINT0_vect_ack)
  show "PORTB (PCINT0_vect pinb s) AND NOT (BV ACK_BIT) = PORTB s AND NOT (BV ACK_BIT)"
    by (rule PCINT0_vect_rest)
  show i: "\<not> bit (PORTB (main_init s)) ACK_BIT"
    by (simp add: PORTB_main_init ACK_BIT_def)
  show "bit (DDRB (main_init s)) ACK_BIT" "mirror_enabled (main_init s)"
    by (rule main_init_mirror)+
  fix evs s'
  assume r: "run evs (main_init s) = Some s'"
  from run_mirror [OF r main_init_mirror] i
  show "bit (DDRB s') ACK_BIT" "mirror_enabled s'"
    "case latest_detect evs of
         None \<Rightarrow> \<not> bit (PORTB s') ACK_BIT
       | Some p \<Rightarrow> bit (PORTB s') ACK_BIT = (\<not> bit p CD_BIT)"
    by (auto split: option.splits)
qed

theorem detect_mirror_invariant_witness:
  "\<exists>s'. run [Frame_header \<lparr>PIND = 0, PINC = 0\<rparr> [\<lparr>PIND = 0xE0, PINC = 0x01\<rparr>],
             Detect_change 0x05,
             Read_transfer (\<lambda>n. 0xA5) 0 \<lparr>PIND = 0xE0, PINC = 0x01\<rparr>
               [\<lparr>PIND = 0, PINC = 0\<rparr>, \<lparr>PIND = 0x20, PINC = 0\<rparr>],
             Detect_change 0x04]
          (main_init reset_state) = Some s' \<and>
        bit (DDRB s') ACK_BIT \<and> mirror_enabled s' \<and> bit (PORTB s') ACK_BIT \<and>
        \<not> bit (0x04 :: uint8_t) CD_BIT"
proof -
  let ?evs = "[Frame_header \<lparr>PIND = 0, PINC = 0\<rparr> [\<lparr>PIND = 0xE0, PINC = 0x01\<rparr>],
             Detect_change 0x05,
             Read_transfer (\<lambda>n. 0xA5) 0 \<lparr>PIND = 0xE0, PINC = 0x01\<rparr>
               [\<lparr>PIND = 0, PINC = 0\<rparr>, \<lparr>PIND = 0x20, PINC = 0\<rparr>],
             Detect_change 0x04]"
  have "\<exists>s'. run ?evs (main_init reset_state) = Some s'"
    by (simp add: main_loop_head_def do_read_def read_loop.simps [of _ 0] main_init_def
          reset_state_def write_SPDR_def read_SPDR_def spi_done_def clock_high_def bits_defs
          pin_change_def mirror_enabled_def PCINT0_vect_def Let_def)
  then obtain s' where r: "run ?evs (main_init reset_state) = Some s'" ..
  have l: "latest_detect ?evs = Some 0x04" by simp
  have "run ?evs (main_init reset_state) = Some s' \<longrightarrow>
      bit (DDRB s') ACK_BIT \<and> mirror_enabled s' \<and>
      (case latest_detect ?evs of
         None \<Rightarrow> \<not> bit (PORTB s') ACK_BIT
       | Some p \<Rightarrow> bit (PORTB s') ACK_BIT = (\<not> bit p CD_BIT))"
    using detect_mirror_invariant [of 0 reset_state] by blast
  from this r have "bit (DDRB s') ACK_BIT \<and> mirror_enabled s' \<and>
      (case latest_detect ?evs of
         None \<Rightarrow> \<not> bit (PORTB s') ACK_BIT
       | Some p \<Rightarrow> bit (PORTB s') ACK_BIT = (\<not> bit p CD_BIT))"
    by (rule mp)
  then have "bit (DDRB s') ACK_BIT \<and> mirror_enabled s' \<and>
      bit (PORTB s') ACK_BIT = (\<not> bit (0x04 :: uint8_t) CD_BIT)"
    by (simp only: l option.case)
  moreover have "\<not> bit (0x04 :: uint8_t) CD_BIT" by (simp add: CD_BIT_def)
  ultimately show ?thesis using r by blast
qed

text \<open>
  The program reads and writes nothing that the handler writes: a phase started with
  another value in PORTB does the same and ends with that value in PORTB.
\<close>

lemma PORTB_out:
  "bus_store ev c f (s\<lparr>PORTB := v\<rparr>) = (bus_store ev c f s)\<lparr>PORTB := v\<rparr>"
  "write_SPDR miso x (s\<lparr>PORTB := v\<rparr>) = (write_SPDR miso x s)\<lparr>PORTB := v\<rparr>"
  "s\<lparr>PORTB := v, presented := p\<rparr> = s\<lparr>presented := p, PORTB := v\<rparr>"
  "s\<lparr>PORTB := v, SPSR := y\<rparr> = s\<lparr>SPSR := y, PORTB := v\<rparr>"
  "s\<lparr>PORTB := v, SPCR := z\<rparr> = s\<lparr>SPCR := z, PORTB := v\<rparr>"
  "spi_done (s\<lparr>PORTB := v\<rparr>) = spi_done s"
  by (cases ev, simp_all add: write_SPDR_def spi_done_def)

lemma read_loop_PORTB:
  "unat byte_count = n \<Longrightarrow>
   read_loop miso byte_count pin_d (s\<lparr>PORTB := v\<rparr>) cur fut =
     map_option (\<lambda>r. ((fst r)\<lparr>PORTB := v\<rparr>, snd r)) (read_loop miso byte_count pin_d s cur fut)"
proof (induction n arbitrary: byte_count pin_d s cur fut)
  case 0
  then have "byte_count = 0" by (simp add: unat_eq_0)
  then show ?case
    by (simp add: read_loop.simps [of miso 0] read_SPDR_def Let_def PORTB_out
          split: option.splits del: bus_store.simps)
next
  case (Suc n)
  then have bc: "byte_count \<noteq> 0" by auto
  with Suc.prems have n: "unat (byte_count - 1) = n" by (simp add: unat_minus_one)
  from bc Suc.IH [OF n] show ?case
    by (simp add: read_loop.simps [of miso byte_count] read_SPDR_def Let_def PORTB_out
          split: option.splits del: bus_store.simps)
qed

lemma write_loop_PORTB:
  "unat byte_count = n \<Longrightarrow>
   write_loop miso byte_count pin_d (s\<lparr>PORTB := v\<rparr>) cur fut =
     map_option (\<lambda>r. ((fst r)\<lparr>PORTB := v\<rparr>, snd r)) (write_loop miso byte_count pin_d s cur fut)"
proof (induction n arbitrary: byte_count pin_d s cur fut)
  case 0
  then have "byte_count = 0" by (simp add: unat_eq_0)
  then show ?case
    by (simp add: write_loop.simps [of miso 0] read_SPDR_def Let_def PORTB_out
          split: option.splits del: bus_store.simps)
next
  case (Suc n)
  then have bc: "byte_count \<noteq> 0" by auto
  with Suc.prems have n: "unat (byte_count - 1) = n" by (simp add: unat_minus_one)
  from bc Suc.IH [OF n] show ?case
    by (simp add: write_loop.simps [of miso byte_count] read_SPDR_def Let_def PORTB_out
          split: option.splits del: bus_store.simps)
qed

lemma step_PORTB:
  assumes "latest_detect [e] = None"
  shows "step e (s\<lparr>PORTB := v\<rparr>) = map_option (\<lambda>t. t\<lparr>PORTB := v\<rparr>) (step e s)"
proof (cases e)
  case (Detect_change x)
  with assms show ?thesis by simp
next
  case (Frame_header cur fut)
  then show ?thesis
    by (simp add: main_loop_head_def Let_def PORTB_out split: option.splits)
next
  case (Read_transfer miso bc cur fut)
  then show ?thesis
    by (simp add: do_read_def Let_def PORTB_out read_loop_PORTB [OF refl]
          option.map_comp comp_def del: bus_store.simps)
next
  case (Write_transfer miso bc pd cur fut)
  then show ?thesis
    by (simp add: do_write_def PORTB_out write_loop_PORTB [OF refl]
          option.map_comp comp_def del: bus_store.simps)
qed

text \<open>
  The handler and the program do not meet: a change of the detect pin at the start of a
  phase of the program leaves the controller as the same change at the end of the phase
  does, also when the phase never ends.
\<close>

lemma pin_change_commutes:
  assumes "latest_detect [e] = None"
  shows "step e (pin_change pinb s) = map_option (pin_change pinb) (step e s)"
proof (cases "step e s")
  case None
  with step_PORTB [OF assms, where s = s] show ?thesis
    by (simp add: pin_change_def PCINT0_vect_def)
next
  case (Some s')
  from step_phase_mirror [OF Some assms] have
    "PORTB s' = PORTB s" "mirror_enabled s' = mirror_enabled s"
    by (simp_all add: mirror_regs_def mirror_enabled_def)
  with Some step_PORTB [OF assms, where s = s] show ?thesis
    by (simp add: pin_change_def PCINT0_vect_def)
qed

section \<open>Properties of the host driver\<close>

subsection \<open>Disk change interrupt\<close>

lemma hw_isr_bound:
  "sw_int d \<noteq> NULL \<Longrightarrow>
   sw_int (hw_isr d) = sw_int d \<and>
   disk_state (hw_isr d) = (if disk_state d = 0 then 1 else 0) \<and>
   caused (hw_isr d) = caused d @ [sw_int d]"
  by (simp add: hw_isr_def Let_def)

lemma hw_isr_unbound: "sw_int d = NULL \<Longrightarrow> hw_isr d = d"
  by (simp add: hw_isr_def)

lemma hw_isr_bound_funpow:
  "sw_int d \<noteq> NULL \<Longrightarrow> disk_state d = 0 \<Longrightarrow>
   sw_int ((hw_isr ^^ n) d) = sw_int d \<and>
   disk_state ((hw_isr ^^ n) d) = (if even n then 0 else 1) \<and>
   caused ((hw_isr ^^ n) d) = caused d @ replicate n (sw_int d)"
proof (induction n)
  case 0
  then show ?case by simp
next
  case (Suc n)
  then have ih: "sw_int ((hw_isr ^^ n) d) = sw_int d"
      "disk_state ((hw_isr ^^ n) d) = (if even n then 0 else 1)"
      "caused ((hw_isr ^^ n) d) = caused d @ replicate n (sw_int d)"
    by simp_all
  from Suc.prems(1) ih(1) have "sw_int ((hw_isr ^^ n) d) \<noteq> NULL" by simp
  from hw_isr_bound [OF this] ih show ?case
    by (simp add: replicate_append_same)
qed

lemma hw_isr_unbound_funpow: "sw_int d = NULL \<Longrightarrow> (hw_isr ^^ n) d = d"
  by (induction n) (simp_all add: hw_isr_unbound)

text \<open>
  C3, the claim as stated fails. With no change-notification binding installed (the
  driver as loaded: \<open>sw_int\<close> null, \<open>disk_state\<close> 0, disk present) one edge of the interrupt
  line leaves the shadow state at 0: it has not toggled to 1 (disk not present).
\<close>

theorem hw_isr_without_binding_no_toggle:
  "sw_int initial_driver = NULL \<and> disk_state initial_driver = 0 \<and>
   disk_state ((hw_isr ^^ 1) initial_driver) = 0 \<and>
   disk_state ((hw_isr ^^ 1) initial_driver) \<noteq> 1"
  by (simp add: hw_isr_def initial_driver_def)

text \<open>
  C3, amended. On every edge of the interrupt line, the shadow presence state toggles
  if and only if a change-notification binding is installed (and then the binding's
  software interrupt is caused once); with no binding installed the edge changes
  nothing. So while a binding stays installed, \<open>n\<close> consecutive edges with no intervening
  poll, starting from present (0), leave the shadow state present (0) if \<open>n\<close> is even and
  absent (1) if \<open>n\<close> is odd; with no binding installed the state stays as it was.
\<close>

theorem hw_isr_toggles_only_when_bound:
  "(sw_int d \<noteq> NULL \<longrightarrow> disk_state d = 0 \<longrightarrow>
      disk_state ((hw_isr ^^ n) d) = (if even n then 0 else 1) \<and>
      caused ((hw_isr ^^ n) d) = caused d @ replicate n (sw_int d)) \<and>
   (sw_int d = NULL \<longrightarrow> (hw_isr ^^ n) d = d)"
  using hw_isr_bound_funpow [of d n] hw_isr_unbound_funpow [of d n] by simp

theorem hw_isr_toggles_only_when_bound_witness:
  "disk_state ((hw_isr ^^ 3) (initial_driver\<lparr>sw_int := 0x4000\<rparr>)) = 1 \<and>
   caused ((hw_isr ^^ 3) (initial_driver\<lparr>sw_int := 0x4000\<rparr>)) = [0x4000, 0x4000, 0x4000] \<and>
   (hw_isr ^^ 3) initial_driver = initial_driver"
proof -
  have a: "sw_int (initial_driver\<lparr>sw_int := 0x4000\<rparr>) \<noteq> NULL" by (simp add: NULL_def)
  have b: "disk_state (initial_driver\<lparr>sw_int := 0x4000\<rparr>) = 0"
    by (simp add: initial_driver_def)
  have c: "sw_int initial_driver = NULL" by (simp add: initial_driver_def)
  have e: "caused initial_driver = []" by (simp add: initial_driver_def)
  from hw_isr_toggles_only_when_bound [of "initial_driver\<lparr>sw_int := 0x4000\<rparr>" 3]
       hw_isr_toggles_only_when_bound [of initial_driver 3] a b c e
  show ?thesis by (simp add: numeral_3_eq_3)
qed

subsection \<open>Block reads and writes\<close>

text \<open>
  C6. A block read or write request that reaches the driver with its context allocated
  makes exactly one call to the card interface (\<open>sd_read\<close> or \<open>sd_write\<close>, with the sector
  number and sector count taken from the byte offset and byte length). If that call
  returns 0 the request completes with \<open>io_Actual\<close> equal to the full requested
  \<open>io_Length\<close> and \<open>io_Error\<close> 0; if it returns anything else the request completes with
  \<open>io_Actual\<close> 0 and the generic error \<open>TDERR_NotSpecified\<close>, which is not 0. The request is
  replied to unless it is a quick one.
\<close>

theorem block_request_completion:
  assumes "ctx d \<noteq> None"
      and "io_Command iostd = CMD_READ \<or> io_Command iostd = CMD_WRITE"
      and "buf = io_Data iostd"
      and "sector = drop_bit SD_SECTOR_SHIFT (io_Offset iostd)"
      and "cnt = drop_bit SD_SECTOR_SHIFT (io_Length iostd)"
      and "status = (if io_Command iostd = CMD_READ then sd_read sd buf sector cnt
                     else sd_write sd buf sector cnt)"
  shows "\<exists>d' r. BeginIO sd d (Some iostd) = (d', Some r) \<and>
     (status = 0 \<longrightarrow> io_Actual r = io_Length iostd \<and> io_Error r = 0) \<and>
     (status \<noteq> 0 \<longrightarrow> io_Actual r = 0 \<and> io_Error r = TDERR_NotSpecified \<and> io_Error r \<noteq> 0) \<and>
     sd_calls d' = sd_calls d @
       [if io_Command iostd = CMD_READ then Call_sd_read buf sector cnt
        else Call_sd_write buf sector cnt] \<and>
     replied d' = (if io_Flags iostd AND IOF_QUICK = 0 then replied d @ [r] else replied d)"
proof (cases "io_Command iostd = CMD_READ")
  case True
  with assms show ?thesis
    by (simp add: BeginIO_def Let_def TDERR_NotSpecified_def)
next
  case False
  with assms(2) have "io_Command iostd = CMD_WRITE" by simp
  with assms show ?thesis
    by (simp add: BeginIO_def Let_def TDERR_NotSpecified_def)
qed

theorem block_request_completion_witness:
  "(\<exists>d' r. BeginIO \<lparr>sd_open = 0, sd_read = (\<lambda>b s n. 0), sd_write = (\<lambda>b s n. 1),
                     sd_get_card_info = \<lparr>ci_type = sdCardType_None, block_size = 0, capacity = 0\<rparr>\<rparr>
       (initial_driver\<lparr>ctx := Some \<lparr>ctx_addr = 0x1000, device = 0x2000, unit_flags = 0,
                                   unit_OpenCnt = 0\<rparr>\<rparr>)
       (Some \<lparr>io_Unit = 0x1004, io_Command = CMD_READ, io_Flags = 1, io_Error = 0, io_Actual = 0,
              io_Length = 1024, io_Data = 0x8000, io_Offset = 512\<rparr>) = (d', Some r) \<and>
     io_Actual r = 1024 \<and> io_Error r = 0 \<and> sd_calls d' = [Call_sd_read 0x8000 1 2]) \<and>
   (\<exists>d' r. BeginIO \<lparr>sd_open = 0, sd_read = (\<lambda>b s n. 0), sd_write = (\<lambda>b s n. 1),
                     sd_get_card_info = \<lparr>ci_type = sdCardType_None, block_size = 0, capacity = 0\<rparr>\<rparr>
       (initial_driver\<lparr>ctx := Some \<lparr>ctx_addr = 0x1000, device = 0x2000, unit_flags = 0,
                                   unit_OpenCnt = 0\<rparr>\<rparr>)
       (Some \<lparr>io_Unit = 0x1004, io_Command = CMD_WRITE, io_Flags = 1, io_Error = 0, io_Actual = 0,
              io_Length = 1024, io_Data = 0x8000, io_Offset = 512\<rparr>) = (d', Some r) \<and>
     io_Actual r = 0 \<and> io_Error r = 20 \<and> sd_calls d' = [Call_sd_write 0x8000 1 2])"
proof -
  let ?sd = "\<lparr>sd_open = 0, sd_read = (\<lambda>b s n. 0), sd_write = (\<lambda>b s n. 1),
     sd_get_card_info = \<lparr>ci_type = sdCardType_None, block_size = 0, capacity = 0\<rparr>\<rparr>"
  let ?d = "initial_driver\<lparr>ctx := Some \<lparr>ctx_addr = 0x1000, device = 0x2000, unit_flags = 0,
     unit_OpenCnt = 0\<rparr>\<rparr>"
  let ?rd = "\<lparr>io_Unit = 0x1004, io_Command = CMD_READ, io_Flags = 1, io_Error = 0, io_Actual = 0,
     io_Length = 1024, io_Data = 0x8000, io_Offset = 512\<rparr>"
  let ?wr = "\<lparr>io_Unit = 0x1004, io_Command = CMD_WRITE, io_Flags = 1, io_Error = 0,
     io_Actual = 0, io_Length = 1024, io_Data = 0x8000, io_Offset = 512\<rparr>"
  have c: "ctx ?d \<noteq> None" by simp
  have s: "sd_calls ?d = []" by (simp add: initial_driver_def)
  have sh: "drop_bit SD_SECTOR_SHIFT (512 :: ULONG) = 1" "drop_bit SD_SECTOR_SHIFT (1024 :: ULONG) = 2"
    by (simp_all add: SD_SECTOR_SHIFT_def drop_bit_eq_div)
  have r: "io_Command ?rd = CMD_READ \<or> io_Command ?rd = CMD_WRITE" by simp
  have w: "io_Command ?wr = CMD_READ \<or> io_Command ?wr = CMD_WRITE" by simp
  from block_request_completion [OF c r refl refl refl refl, of ?sd]
  have 1: "\<exists>d' r. BeginIO ?sd ?d (Some ?rd) = (d', Some r) \<and>
     io_Actual r = 1024 \<and> io_Error r = 0 \<and> sd_calls d' = [Call_sd_read 0x8000 1 2]"
    by (simp add: s sh) blast
  from block_request_completion [OF c w refl refl refl refl, of ?sd]
  have 2: "\<exists>d' r. BeginIO ?sd ?d (Some ?wr) = (d', Some r) \<and>
     io_Actual r = 0 \<and> io_Error r = 20 \<and> sd_calls d' = [Call_sd_write 0x8000 1 2]"
    by (simp add: s sh TDERR_NotSpecified_def) blast
  from 1 2 show ?thesis by (rule conjI)
qed

subsection \<open>Geometry\<close>

text \<open>
  C7. A geometry query that reaches the driver with its context allocated asks the card
  interface for the card information and makes no other call to it: no read and no write
  is issued. With no card (\<open>sdCardType_None\<close>) the request fails with the not-ready code
  \<open>TDERR_DiskChanged\<close>, which \<open>device_get_geometry\<close> returns and which is not 0, and no
  geometry is written. With a card the request succeeds with error code 0 and the
  structure that \<open>io_Data\<close> points to holds the synthesized geometry: sector size
  \<open>2 ^ block_size\<close>, total sectors \<open>capacity div 2 ^ block_size\<close> (both as 32-bit values),
  as many cylinders as sectors, one sector per cylinder and track, one head, removable.
\<close>

theorem geometry_query:
  assumes "ctx d \<noteq> None" and "io_Command iostd = TD_GETGEOMETRY"
      and "ci = sd_get_card_info sd"
  shows "\<exists>d' r. BeginIO sd d (Some iostd) = (d', Some r) \<and>
     io_Error r = fst (device_get_geometry sd d iostd) \<and>
     sd_calls d' = sd_calls d @ [Call_sd_get_card_info] \<and>
     (ci_type ci = sdCardType_None \<longrightarrow>
        io_Error r = TDERR_DiskChanged \<and> io_Error r \<noteq> 0 \<and> geometry_at d' = geometry_at d) \<and>
     (ci_type ci \<noteq> sdCardType_None \<longrightarrow>
        io_Error r = 0 \<and>
        dg_SectorSize (geometry_at d' (io_Data iostd)) = 2 ^ block_size ci \<and>
        dg_TotalSectors (geometry_at d' (io_Data iostd)) =
          of_nat (capacity ci div 2 ^ block_size ci) \<and>
        dg_Cylinders (geometry_at d' (io_Data iostd)) =
          dg_TotalSectors (geometry_at d' (io_Data iostd)) \<and>
        dg_CylSectors (geometry_at d' (io_Data iostd)) = 1 \<and>
        dg_Heads (geometry_at d' (io_Data iostd)) = 1 \<and>
        dg_TrackSectors (geometry_at d' (io_Data iostd)) = 1 \<and>
        dg_BufMemType (geometry_at d' (io_Data iostd)) = MEMF_PUBLIC \<and>
        dg_DeviceType (geometry_at d' (io_Data iostd)) = DG_DIRECT_ACCESS \<and>
        dg_Flags (geometry_at d' (io_Data iostd)) = DGF_REMOVABLE)"
proof (cases "ci_type ci = sdCardType_None")
  case True
  with assms show ?thesis
    by (simp add: BeginIO_def device_get_geometry_def Let_def TDERR_DiskChanged_def)
next
  case False
  with assms show ?thesis
    by (simp add: BeginIO_def device_get_geometry_def Let_def push_bit_of_1 drop_bit_eq_div)
qed

theorem geometry_query_witness:
  "(\<exists>d' r. BeginIO \<lparr>sd_open = 0, sd_read = (\<lambda>b s n. 0), sd_write = (\<lambda>b s n. 0),
                     sd_get_card_info = \<lparr>ci_type = sdCardType_None, block_size = 9, capacity = 0\<rparr>\<rparr>
       (initial_driver\<lparr>ctx := Some \<lparr>ctx_addr = 0x1000, device = 0x2000, unit_flags = 0,
                                   unit_OpenCnt = 0\<rparr>\<rparr>)
       (Some \<lparr>io_Unit = 0x1004, io_Command = TD_GETGEOMETRY, io_Flags = 1, io_Error = 0,
              io_Actual = 0, io_Length = 32, io_Data = 0x8000, io_Offset = 0\<rparr>) = (d', Some r) \<and>
     io_Error r = 29 \<and> sd_calls d' = [Call_sd_get_card_info]) \<and>
   (\<exists>d' r. BeginIO \<lparr>sd_open = 0, sd_read = (\<lambda>b s n. 0), sd_write = (\<lambda>b s n. 0),
                     sd_get_card_info =
                       \<lparr>ci_type = sdCardType_present 1, block_size = 9, capacity = 1048576\<rparr>\<rparr>
       (initial_driver\<lparr>ctx := Some \<lparr>ctx_addr = 0x1000, device = 0x2000, unit_flags = 0,
                                   unit_OpenCnt = 0\<rparr>\<rparr>)
       (Some \<lparr>io_Unit = 0x1004, io_Command = TD_GETGEOMETRY, io_Flags = 1, io_Error = 0,
              io_Actual = 0, io_Length = 32, io_Data = 0x8000, io_Offset = 0\<rparr>) = (d', Some r) \<and>
     io_Error r = 0 \<and> sd_calls d' = [Call_sd_get_card_info] \<and>
     dg_SectorSize (geometry_at d' 0x8000) = 512 \<and>
     dg_TotalSectors (geometry_at d' 0x8000) = 2048)"
proof -
  let ?none = "\<lparr>sd_open = 0, sd_read = (\<lambda>b s n. 0), sd_write = (\<lambda>b s n. 0),
     sd_get_card_info = \<lparr>ci_type = sdCardType_None, block_size = 9, capacity = 0\<rparr>\<rparr>"
  let ?card = "\<lparr>sd_open = 0, sd_read = (\<lambda>b s n. 0), sd_write = (\<lambda>b s n. 0),
     sd_get_card_info = \<lparr>ci_type = sdCardType_present 1, block_size = 9, capacity = 1048576\<rparr>\<rparr>"
  let ?d = "initial_driver\<lparr>ctx := Some \<lparr>ctx_addr = 0x1000, device = 0x2000, unit_flags = 0,
     unit_OpenCnt = 0\<rparr>\<rparr>"
  let ?rq = "\<lparr>io_Unit = 0x1004, io_Command = TD_GETGEOMETRY, io_Flags = 1, io_Error = 0,
     io_Actual = 0, io_Length = 32, io_Data = 0x8000, io_Offset = 0\<rparr>"
  have c: "ctx ?d \<noteq> None" by simp
  have q: "io_Command ?rq = TD_GETGEOMETRY" by simp
  have s: "sd_calls ?d = []" by (simp add: initial_driver_def)
  from geometry_query [OF c q refl, of ?none]
  have 1: "\<exists>d' r. BeginIO ?none ?d (Some ?rq) = (d', Some r) \<and>
     io_Error r = 29 \<and> sd_calls d' = [Call_sd_get_card_info]"
    by (simp add: s TDERR_DiskChanged_def) blast
  from geometry_query [OF c q refl, of ?card]
  have 2: "\<exists>d' r. BeginIO ?card ?d (Some ?rq) = (d', Some r) \<and>
     io_Error r = 0 \<and> sd_calls d' = [Call_sd_get_card_info] \<and>
     dg_SectorSize (geometry_at d' 0x8000) = 512 \<and>
     dg_TotalSectors (geometry_at d' 0x8000) = 2048"
    by (simp add: s) blast
  from 1 2 show ?thesis by (rule conjI)
qed

subsection \<open>Change notification\<close>

text \<open>
  A registration request installs the interrupt that \<open>io_Data\<close> points to in the one
  variable \<open>sw_int\<close>, whatever was there before; with a null \<open>io_Data\<close> it disables the
  notification.
\<close>

lemma add_changeint_installs:
  "ctx d \<noteq> None \<Longrightarrow> io_Command iostd = TD_ADDCHANGEINT \<Longrightarrow>
   sw_int (fst (BeginIO sd d (Some iostd))) = io_Data iostd"
  by (auto simp add: BeginIO_def Let_def NULL_def)

text \<open>
  C8, the behaviour of the code where the claim fails. A binding is installed (the
  interrupt at address \<open>0x4000\<close>). A de-registration request for it completes without
  error, and the binding is still installed afterwards: \<open>sw_int\<close> is not null, so the next
  edge of the interrupt line would still cause the interrupt that was removed.
\<close>

theorem rem_changeint_leaves_binding:
  "sw_int (fst (BeginIO
       \<lparr>sd_open = 0, sd_read = (\<lambda>b s n. 0), sd_write = (\<lambda>b s n. 0),
         sd_get_card_info = \<lparr>ci_type = sdCardType_None, block_size = 0, capacity = 0\<rparr>\<rparr>
       (initial_driver\<lparr>ctx := Some \<lparr>ctx_addr = 0x1000, device = 0x2000, unit_flags = 0,
                                   unit_OpenCnt = 0\<rparr>,
                        sw_int := 0x4000\<rparr>)
       (Some \<lparr>io_Unit = 0x1004, io_Command = TD_REMCHANGEINT, io_Flags = 1, io_Error = 0,
              io_Actual = 0, io_Length = 0, io_Data = 0x4000, io_Offset = 0\<rparr>))) = 0x4000 \<and>
   (0x4000 :: APTR) \<noteq> NULL"
  by (simp add: BeginIO_def Let_def NULL_def)

subsection \<open>Protection status\<close>

text \<open>
  C9. A protection-status request that reaches the driver with its context allocated
  completes with \<open>io_Actual\<close> 0 (not write-protected) and no error, whatever the card
  interface would report: the driver does not call it.
\<close>

theorem protstatus_reports_unprotected:
  assumes "ctx d \<noteq> None" and "io_Command iostd = TD_PROTSTATUS"
  shows "\<exists>d' r. BeginIO sd d (Some iostd) = (d', Some r) \<and>
     io_Actual r = 0 \<and> io_Error r = 0 \<and> sd_calls d' = sd_calls d"
  using assms by (auto simp add: BeginIO_def Let_def)

theorem protstatus_reports_unprotected_witness:
  "\<exists>d' r. BeginIO \<lparr>sd_open = 1, sd_read = (\<lambda>b s n. 1), sd_write = (\<lambda>b s n. 1),
                     sd_get_card_info = \<lparr>ci_type = sdCardType_None, block_size = 0, capacity = 0\<rparr>\<rparr>
       (initial_driver\<lparr>ctx := Some \<lparr>ctx_addr = 0x1000, device = 0x2000, unit_flags = 0,
                                   unit_OpenCnt = 0\<rparr>\<rparr>)
       (Some \<lparr>io_Unit = 0x1004, io_Command = TD_PROTSTATUS, io_Flags = 0, io_Error = 5,
              io_Actual = 77, io_Length = 0, io_Data = 0, io_Offset = 0\<rparr>) = (d', Some r) \<and>
     io_Actual r = 0 \<and> io_Error r = 0"
proof -
  let ?d = "initial_driver\<lparr>ctx := Some \<lparr>ctx_addr = 0x1000, device = 0x2000, unit_flags = 0,
     unit_OpenCnt = 0\<rparr>\<rparr>"
  let ?rq = "\<lparr>io_Unit = 0x1004, io_Command = TD_PROTSTATUS, io_Flags = 0, io_Error = 5,
     io_Actual = 77, io_Length = 0, io_Data = 0, io_Offset = 0\<rparr>"
  have c: "ctx ?d \<noteq> None" by simp
  have q: "io_Command ?rq = TD_PROTSTATUS" by simp
  from protstatus_reports_unprotected [OF c q] show ?thesis by blast
qed

subsection \<open>Opening the device\<close>

text \<open>
  C10. For every open request with a unit number other than 0, or for which the open of
  the card interface fails, \<open>__UserDevOpen\<close> returns \<open>IOERR_OPENFAIL\<close> and stores it in the
  request, and changes nothing else in the request: no unit is attached, \<open>io_Unit\<close> is as
  the caller left it. The driver's context is untouched. Conversely the open returns 0
  only for unit 0 with a successful open of the card interface.
\<close>

theorem open_fails_unless_unit_0:
  "(unit \<noteq> 0 \<or> sd_open sd \<noteq> 0 \<longrightarrow>
      (\<exists>d'. UserDevOpen sd d (Some iostd) unit flags =
              Some (IOERR_OPENFAIL, d', iostd\<lparr>io_Error := IOERR_OPENFAIL\<rparr>) \<and>
            ctx d' = ctx d) \<and>
      IOERR_OPENFAIL \<noteq> 0) \<and>
   (\<forall>d' r. UserDevOpen sd d (Some iostd) unit flags = Some (0, d', r) \<longrightarrow>
      unit = 0 \<and> sd_open sd = 0)"
  by (auto simp add: UserDevOpen_def Let_def IOERR_OPENFAIL_def split: option.splits)

theorem open_fails_unless_unit_0_witness:
  "UserDevOpen \<lparr>sd_open = 0, sd_read = (\<lambda>b s n. 0), sd_write = (\<lambda>b s n. 0),
                 sd_get_card_info = \<lparr>ci_type = sdCardType_None, block_size = 0, capacity = 0\<rparr>\<rparr>
       (initial_driver\<lparr>ctx := Some \<lparr>ctx_addr = 0x1000, device = 0x2000, unit_flags = 0,
                                   unit_OpenCnt = 0\<rparr>\<rparr>)
       (Some \<lparr>io_Unit = 0x77, io_Command = CMD_unlisted, io_Flags = 0, io_Error = 0,
              io_Actual = 0, io_Length = 0, io_Data = 0, io_Offset = 0\<rparr>) 1 0
     = Some (- 1,
        initial_driver\<lparr>ctx := Some \<lparr>ctx_addr = 0x1000, device = 0x2000, unit_flags = 0,
                                   unit_OpenCnt = 0\<rparr>\<rparr>,
        \<lparr>io_Unit = 0x77, io_Command = CMD_unlisted, io_Flags = 0, io_Error = - 1,
          io_Actual = 0, io_Length = 0, io_Data = 0, io_Offset = 0\<rparr>) \<and>
   (\<exists>d'. UserDevOpen \<lparr>sd_open = 0, sd_read = (\<lambda>b s n. 0), sd_write = (\<lambda>b s n. 0),
                 sd_get_card_info = \<lparr>ci_type = sdCardType_None, block_size = 0, capacity = 0\<rparr>\<rparr>
       (initial_driver\<lparr>ctx := Some \<lparr>ctx_addr = 0x1000, device = 0x2000, unit_flags = 0,
                                   unit_OpenCnt = 0\<rparr>\<rparr>)
       (Some \<lparr>io_Unit = 0x77, io_Command = CMD_unlisted, io_Flags = 0, io_Error = 0,
              io_Actual = 0, io_Length = 0, io_Data = 0, io_Offset = 0\<rparr>) 0 0
     = Some (0, d',
        \<lparr>io_Unit = 0x1004, io_Command = CMD_unlisted, io_Flags = 0, io_Error = 0,
          io_Actual = 0, io_Length = 0, io_Data = 0, io_Offset = 0\<rparr>)) \<and>
   (0 :: ULONG) = 0"
proof -
  let ?sd = "\<lparr>sd_open = 0, sd_read = (\<lambda>b s n. 0), sd_write = (\<lambda>b s n. 0),
     sd_get_card_info = \<lparr>ci_type = sdCardType_None, block_size = 0, capacity = 0\<rparr>\<rparr>"
  let ?d = "initial_driver\<lparr>ctx := Some \<lparr>ctx_addr = 0x1000, device = 0x2000, unit_flags = 0,
     unit_OpenCnt = 0\<rparr>\<rparr>"
  let ?rq = "\<lparr>io_Unit = 0x77, io_Command = CMD_unlisted, io_Flags = 0, io_Error = 0,
     io_Actual = 0, io_Length = 0, io_Data = 0, io_Offset = 0\<rparr>"
  have u: "(1 :: ULONG) \<noteq> 0 \<or> sd_open ?sd \<noteq> 0" by simp
  from open_fails_unless_unit_0 [of 1 ?sd ?d ?rq 0] u
  obtain d' where
    "UserDevOpen ?sd ?d (Some ?rq) 1 0 = Some (IOERR_OPENFAIL, d', ?rq\<lparr>io_Error := IOERR_OPENFAIL\<rparr>)"
    by blast
  then have fail: "UserDevOpen ?sd ?d (Some ?rq) 1 0 =
      Some (- 1, ?d, ?rq\<lparr>io_Error := - 1\<rparr>)"
    by (simp add: UserDevOpen_def IOERR_OPENFAIL_def)
  have ok: "\<exists>d'. UserDevOpen ?sd ?d (Some ?rq) 0 0 = Some (0, d', ?rq\<lparr>io_Unit := 0x1004\<rparr>)"
    by (simp add: UserDevOpen_def Let_def unit_address_def)
  with open_fails_unless_unit_0 [of 0 ?sd ?d ?rq 0] have "(0 :: ULONG) = 0" by blast
  with fail ok show ?thesis by simp
qed

end
